theory Spec2Isabelle
  imports Main "HOL-Library.List_Lexorder" "HOL-Library.Code_Target_Nat"
begin

section \<open>JavaScript strings\<close>

text \<open>
  The generator is the TypeScript class \<open>JavaSpringGenerator\<close>
  (\<open>src/frontend/src/uml/codegen/JavaSpringGenerator.ts\<close>). A JavaScript string is a
  sequence of UTF-16 code units; the model is the list of their numbers (each below
  65536). \<open>u16\<close> turns an ASCII literal into such a list. Indexing, \<open>slice\<close>,
  \<open>indexOf\<close>, \<open>===\<close> and the regular expressions without the \<open>u\<close> flag work
  on code units, as they do in the language.
\<close>

type_synonym jsstring = "nat list"

definition u16 :: "string \<Rightarrow> jsstring" where
  "u16 s = map of_char s"

definition inRange :: "nat \<Rightarrow> nat \<Rightarrow> nat \<Rightarrow> bool" where
  "inRange lo hi c = (lo \<le> c \<and> c \<le> hi)"

text \<open>
  \<open>\s\<close> and \<open>trim()\<close>: WhiteSpace and LineTerminator of the language, that is TAB, LF,
  VT, FF, CR, SP, NBSP, U+1680, U+2000 to U+200A, LS, PS, U+202F, U+205F, U+3000 and
  U+FEFF.
\<close>

definition isSpace :: "nat \<Rightarrow> bool" where
  "isSpace c = (inRange 9 13 c \<or> c = 32 \<or> c = 160 \<or> c = 0x1680 \<or> inRange 0x2000 0x200A c
     \<or> c = 0x2028 \<or> c = 0x2029 \<or> c = 0x202F \<or> c = 0x205F \<or> c = 0x3000 \<or> c = 0xFEFF)"

text \<open>\<open>\d\<close> is \<open>[0-9]\<close> and \<open>\w\<close> is \<open>[A-Za-z0-9_]\<close>.\<close>

definition isDigit :: "nat \<Rightarrow> bool" where
  "isDigit c = inRange 48 57 c"

definition isAsciiUpper :: "nat \<Rightarrow> bool" where
  "isAsciiUpper c = inRange 65 90 c"

definition isAsciiLower :: "nat \<Rightarrow> bool" where
  "isAsciiLower c = inRange 97 122 c"

definition isWordChar :: "nat \<Rightarrow> bool" where
  "isWordChar c = (isAsciiUpper c \<or> isAsciiLower c \<or> isDigit c \<or> c = 95)"

definition trim :: "jsstring \<Rightarrow> jsstring" where
  "trim s = rev (dropWhile isSpace (rev (dropWhile isSpace s)))"

text \<open>\<open>s.endsWith(t)\<close>, \<open>s.slice(0, -n)\<close> and \<open>xs.join(sep)\<close>.\<close>

definition endsWith :: "jsstring \<Rightarrow> jsstring \<Rightarrow> bool" where
  "endsWith s t = (length t \<le> length s \<and> drop (length s - length t) s = t)"

definition sliceEnd :: "jsstring \<Rightarrow> nat \<Rightarrow> jsstring" where
  "sliceEnd s n = take (length s - n) s"

fun join :: "jsstring \<Rightarrow> jsstring list \<Rightarrow> jsstring" where
  "join sep [] = []"
| "join sep [x] = x"
| "join sep (x # y # ys) = x @ sep @ join sep (y # ys)"

text \<open>
  Decimal text of a non-negative integer, as a template literal prints it (the digit
  \<open>d\<close> is the code unit \<open>48 + d\<close>).
\<close>

fun natToString :: "nat \<Rightarrow> jsstring" where
  "natToString n = (if n < 10 then [48 + n] else natToString (n div 10) @ [48 + n mod 10])"

declare natToString.simps [simp del]

subsection \<open>Code points\<close>

text \<open>
  A regular expression with the \<open>u\<close> flag and \<open>JSON.stringify\<close> read a string by
  code points: a leading surrogate followed by a trailing surrogate is one code point
  above U+FFFF, any other code unit is a code point by itself.
\<close>

definition isLeadSurrogate :: "nat \<Rightarrow> bool" where
  "isLeadSurrogate c = inRange 0xD800 0xDBFF c"

definition isTrailSurrogate :: "nat \<Rightarrow> bool" where
  "isTrailSurrogate c = inRange 0xDC00 0xDFFF c"

definition surrogatePair :: "nat \<Rightarrow> nat \<Rightarrow> bool" where
  "surrogatePair h l = (isLeadSurrogate h \<and> isTrailSurrogate l)"

definition pairCodePoint :: "nat \<Rightarrow> nat \<Rightarrow> nat" where
  "pairCodePoint h l = 0x10000 + (h - 0xD800) * 0x400 + (l - 0xDC00)"


subsection \<open>Unicode data of the engine\<close>

text \<open>
  The Unicode tables belong to the JavaScript engine that runs the generator, not to the
  generator: which code points are letters (\<open>\p{L}\<close>) and numbers (\<open>\p{N}\<close>), and
  the case conversions \<open>String.prototype.toLowerCase\<close> and \<open>toUpperCase\<close>. Every
  function that consults them takes them as its first argument.
\<close>

record UnicodeData =
  isLetter :: "nat \<Rightarrow> bool"
  isNumber :: "nat \<Rightarrow> bool"
  toLowerCase :: "jsstring \<Rightarrow> jsstring"
  toUpperCase :: "jsstring \<Rightarrow> jsstring"

text \<open>
  \<open>latin1\<close> is the Unicode data of the blocks Basic Latin and Latin-1 Supplement, used
  below to run the generator on text of these blocks.
  Letters below U+0100: the ASCII letters, U+00AA, U+00B5, U+00BA, U+00C0 to U+00D6,
  U+00D8 to U+00F6 and U+00F8 to U+00FF. Numbers below U+0100: the ASCII digits, U+00B2,
  U+00B3, U+00B9 and U+00BC to U+00BE. The upper-case letters are A to Z and U+00C0 to
  U+00DE without U+00D7, each 32 below its lower-case partner; in upper case U+00DF
  becomes \<open>SS\<close>, U+00B5 becomes U+039C and U+00FF becomes U+0178. Beyond U+00FF
  \<open>latin1\<close> knows no letter and no number and converts no case.
\<close>

definition latin1Letter :: "nat \<Rightarrow> bool" where
  "latin1Letter c = (isAsciiUpper c \<or> isAsciiLower c \<or> c = 170 \<or> c = 181 \<or> c = 186
     \<or> inRange 192 214 c \<or> inRange 216 246 c \<or> inRange 248 255 c)"

definition latin1Number :: "nat \<Rightarrow> bool" where
  "latin1Number c = (isDigit c \<or> c = 178 \<or> c = 179 \<or> c = 185 \<or> inRange 188 190 c)"

definition latin1Lower :: "nat \<Rightarrow> nat" where
  "latin1Lower c = (if isAsciiUpper c \<or> (inRange 192 222 c \<and> c \<noteq> 215) then c + 32 else c)"

definition latin1Upper :: "nat \<Rightarrow> jsstring" where
  "latin1Upper c =
     (if c = 223 then [83, 83]
      else if c = 181 then [0x39C]
      else if c = 255 then [0x178]
      else if isAsciiLower c \<or> (inRange 224 254 c \<and> c \<noteq> 247) then [c - 32]
      else [c])"

definition latin1 :: UnicodeData where
  "latin1 = \<lparr>isLetter = latin1Letter, isNumber = latin1Number,
     toLowerCase = map latin1Lower, toUpperCase = (\<lambda>s. concat (map latin1Upper s))\<rparr>"

section \<open>Data model\<close>

record ClassDefinition =
  name :: jsstring
  attributes :: "jsstring list"
  methods :: "jsstring list"

datatype RelationType = ONE_TO_ONE | ONE_TO_MANY | MANY_TO_ONE | MANY_TO_MANY

record RelationDefinition =
  source :: jsstring
  target :: jsstring
  type :: RelationType
  bidirectional :: bool

text \<open>The state of a \<open>JavaSpringGenerator\<close> object: its three private fields.\<close>

record JavaSpringGenerator =
  classes :: "ClassDefinition list"
  relations :: "RelationDefinition list"
  packageName :: jsstring

definition newGenerator :: "jsstring \<Rightarrow> JavaSpringGenerator" where
  "newGenerator pkg = \<lparr>classes = [], relations = [], packageName = pkg\<rparr>"

definition addClass :: "ClassDefinition \<Rightarrow> JavaSpringGenerator \<Rightarrow> JavaSpringGenerator" where
  "addClass cls g = g\<lparr>classes := classes g @ [cls]\<rparr>"

definition addRelation :: "RelationDefinition \<Rightarrow> JavaSpringGenerator \<Rightarrow> JavaSpringGenerator" where
  "addRelation relation g = g\<lparr>relations := relations g @ [relation]\<rparr>"

section \<open>Utilities of the generator\<close>

text \<open>\<open>safeStr(s, fallback = "")\<close>: the trimmed text, or the fallback when that is empty.\<close>

definition safeStr :: "jsstring \<Rightarrow> jsstring \<Rightarrow> jsstring" where
  "safeStr s fallback = (let v = trim s in if v = [] then fallback else v)"

definition reserved :: "jsstring list" where
  "reserved = map u16 [''class'', ''interface'', ''abstract'', ''public'', ''private'',
     ''protected'', ''static'', ''final'', ''volatile'', ''transient'', ''synchronized'',
     ''native'', ''strictfp'']"

text \<open>\<open>s.charAt(0)\<close> of a non-empty string is its first code unit, as a string.\<close>

definition toCamelCase :: "UnicodeData \<Rightarrow> jsstring \<Rightarrow> jsstring" where
  "toCamelCase U str = (let s = safeStr str [] in
     if s = [] then u16 ''value''
     else (let out = toLowerCase U [hd s] @ tl s in
           if out \<in> set reserved then out @ u16 ''Entity'' else out))"

definition toPascal :: "UnicodeData \<Rightarrow> jsstring \<Rightarrow> jsstring" where
  "toPascal U str = (let s = safeStr str [] in
     if s = [] then u16 ''Value'' else toUpperCase U [hd s] @ tl s)"

text \<open>
  The two regular expressions of \<open>toPlural\<close>: \<open>/(s|sh|ch|x|z)$/\<close> and
  \<open>/[^aeiou]y$/\<close>. The negated class matches any code unit other than the five
  lower-case vowels.
\<close>

definition endsSibilant :: "jsstring \<Rightarrow> bool" where
  "endsSibilant s = (endsWith s (u16 ''s'') \<or> endsWith s (u16 ''sh'') \<or> endsWith s (u16 ''ch'')
     \<or> endsWith s (u16 ''x'') \<or> endsWith s (u16 ''z''))"

definition notVowel :: "nat \<Rightarrow> bool" where
  "notVowel c = (c \<notin> set (u16 ''aeiou''))"

definition endsNonVowelY :: "jsstring \<Rightarrow> bool" where
  "endsNonVowelY s = (2 \<le> length s \<and> last s = of_char CHR ''y'' \<and> notVowel (last (butlast s)))"

definition toPlural :: "jsstring \<Rightarrow> jsstring" where
  "toPlural str = (let s = safeStr str [] in
     if s = [] then u16 ''items''
     else if endsSibilant s then s @ u16 ''es''
     else if endsNonVowelY s then sliceEnd s 1 @ u16 ''ies''
     else if endsWith s (u16 ''f'') then sliceEnd s 1 @ u16 ''ves''
     else if endsWith s (u16 ''fe'') then sliceEnd s 2 @ u16 ''ves''
     else s @ u16 ''s'')"

text \<open>
  The sanitizer's \<open>replace(/[^\p{L}\p{N}_$]/gu, "_")\<close>: the expression has the
  \<open>u\<close> flag, so it goes through the text code point by code point and puts one
  underscore (95) for every code point that is not a letter, a number, the underscore or
  the dollar sign (36); a surrogate pair is one code point.
\<close>

definition identCodePoint :: "UnicodeData \<Rightarrow> nat \<Rightarrow> bool" where
  "identCodePoint U cp = (isLetter U cp \<or> isNumber U cp \<or> cp = 95 \<or> cp = 36)"

fun replaceNonIdent :: "UnicodeData \<Rightarrow> jsstring \<Rightarrow> jsstring" where
  "replaceNonIdent U [] = []"
| "replaceNonIdent U [c] = [if identCodePoint U c then c else 95]"
| "replaceNonIdent U (h # l # rest) =
     (if surrogatePair h l
      then (if identCodePoint U (pairCodePoint h l) then h # l # replaceNonIdent U rest
            else 95 # replaceNonIdent U rest)
      else (if identCodePoint U h then h else 95) # replaceNonIdent U (l # rest))"

definition startsWithDigit :: "jsstring \<Rightarrow> bool" where
  "startsWithDigit s = (case s of [] \<Rightarrow> False | c # _ \<Rightarrow> isDigit c)"

definition sanitizeIdentifier :: "UnicodeData \<Rightarrow> jsstring \<Rightarrow> jsstring \<Rightarrow> jsstring" where
  "sanitizeIdentifier U raw fallback =
     (let s = replaceNonIdent U (safeStr raw fallback) in
      if startsWithDigit s then 95 # s else s)"

text \<open>
  \<open>isJavaType\<close>: a primitive keyword, a common type name, or a capitalised word
  (\<open>/^[A-Z]\w*$/\<close>).
\<close>

definition primitives :: "jsstring list" where
  "primitives = map u16 [''int'', ''long'', ''double'', ''float'', ''boolean'', ''byte'',
     ''short'', ''char'', ''void'']"

definition common :: "jsstring list" where
  "common = map u16 [''String'', ''Integer'', ''Long'', ''Double'', ''Float'', ''Boolean'',
     ''BigDecimal'', ''Date'', ''LocalDate'', ''LocalDateTime'', ''UUID'']"

definition capitalizedWord :: "jsstring \<Rightarrow> bool" where
  "capitalizedWord t = (case t of [] \<Rightarrow> False | c # cs \<Rightarrow> isAsciiUpper c \<and> list_all isWordChar cs)"

definition isJavaType :: "jsstring \<Rightarrow> bool" where
  "isJavaType token = (let t = trim token in
     t \<in> set primitives \<or> t \<in> set common \<or> capitalizedWord t)"

section \<open>Type resolver\<close>

text \<open>
  \<open>typeMap\<close> is an object literal, so \<open>typeMap[key]\<close> finds its own properties and,
  for any other key, the properties that every object literal inherits from
  \<open>Object.prototype\<close>. A value read from the table is therefore either a string or
  such an inherited member (a built-in function, or the prototype object for
  \<open>__proto__\<close>); \<open>Inherited k\<close> stands for the member named \<open>k\<close>.
\<close>

datatype jsvalue = Str jsstring | Inherited jsstring

definition typeMap :: "(jsstring \<times> jsstring) list" where
  "typeMap = map (\<lambda>kv. (u16 (fst kv), u16 (snd kv))) [
     (''int'', ''Integer''), (''Int'', ''Integer''), (''integer'', ''Integer''),
     (''Integer'', ''Integer''),
     (''long'', ''Long''), (''Long'', ''Long''),
     (''string'', ''String''), (''String'', ''String''), (''text'', ''String''),
     (''Text'', ''String''),
     (''double'', ''Double''), (''Double'', ''Double''), (''float'', ''Float''),
     (''Float'', ''Float''),
     (''decimal'', ''BigDecimal''), (''Decimal'', ''BigDecimal''), (''money'', ''BigDecimal''),
     (''currency'', ''BigDecimal''),
     (''bool'', ''Boolean''), (''Bool'', ''Boolean''), (''boolean'', ''Boolean''),
     (''Boolean'', ''Boolean''),
     (''date'', ''LocalDate''), (''Date'', ''LocalDate''), (''datetime'', ''LocalDateTime''),
     (''DateTime'', ''LocalDateTime''), (''timestamp'', ''LocalDateTime''),
     (''uuid'', ''UUID''), (''UUID'', ''UUID''), (''guid'', ''UUID'')]"

definition objectPrototypeKeys :: "jsstring list" where
  "objectPrototypeKeys = map u16 [''constructor'', ''__defineGetter__'', ''__defineSetter__'',
     ''hasOwnProperty'', ''__lookupGetter__'', ''__lookupSetter__'', ''isPrototypeOf'',
     ''propertyIsEnumerable'', ''toString'', ''valueOf'', ''__proto__'', ''toLocaleString'']"

text \<open>Property read \<open>typeMap[key]\<close>; \<open>None\<close> is \<open>undefined\<close>.\<close>

definition typeMapGet :: "jsstring \<Rightarrow> jsvalue option" where
  "typeMapGet key = (case map_of typeMap key of
       Some v \<Rightarrow> Some (Str v)
     | None \<Rightarrow> if key \<in> set objectPrototypeKeys then Some (Inherited key) else None)"

definition truthy :: "jsvalue \<Rightarrow> bool" where
  "truthy v = (case v of Str s \<Rightarrow> s \<noteq> [] | Inherited k \<Rightarrow> True)"

definition mapToJavaType :: "jsstring \<Rightarrow> jsvalue" where
  "mapToJavaType typeToken = (let normalized = trim typeToken in
     case typeMapGet normalized of
       Some v \<Rightarrow> if truthy v then v else Str (u16 ''String'')
     | None \<Rightarrow> Str (u16 ''String''))"

section \<open>Attribute parser\<close>

text \<open>\<open>raw.indexOf(":")\<close>; \<open>None\<close> is the result \<open>-1\<close>.\<close>

fun indexOf :: "jsstring \<Rightarrow> nat \<Rightarrow> nat option" where
  "indexOf [] c = None"
| "indexOf (x # xs) c = (if x = c then Some 0 else map_option Suc (indexOf xs c))"

text \<open>
  \<open>raw.split(/\s+/)\<close> cuts at every maximal run of white space; a run at either end
  leaves an empty piece there, which \<open>filter(Boolean)\<close> removes.
\<close>

function splitWs :: "jsstring \<Rightarrow> jsstring list" where
  "splitWs [] = [[]]"
| "splitWs (c # cs) =
     (if isSpace c then [] # splitWs (dropWhile isSpace cs)
      else (case splitWs cs of [] \<Rightarrow> [[c]] | p # ps \<Rightarrow> (c # p) # ps))"
  by pat_completeness auto
termination
  by (relation "measure length") (auto simp: length_dropWhile_le less_Suc_eq_le)

definition tokens :: "jsstring \<Rightarrow> jsstring list" where
  "tokens raw = filter (\<lambda>p. p \<noteq> []) (splitWs raw)"

text \<open>
  \<open>ParsedAttr\<close> is declared \<open>{ type: string; name: string }\<close>; at run time
  \<open>type\<close> holds whatever \<open>mapToJavaType\<close> returned. Its fields are named
  \<open>ptype\<close> and \<open>pname\<close> here, apart from \<open>type\<close> of a relation and
  \<open>name\<close> of a class.
\<close>

record ParsedAttr =
  ptype :: jsvalue
  pname :: jsstring

definition colon :: nat where
  "colon = of_char CHR '':''"

definition fieldFallback :: "nat \<Rightarrow> jsstring" where
  "fieldFallback index = u16 ''field_'' @ natToString (index + 1)"

definition parseAttribute :: "UnicodeData \<Rightarrow> jsstring \<Rightarrow> nat \<Rightarrow> ParsedAttr" where
  "parseAttribute U line index = (let raw = safeStr line [] in
     if raw = [] then \<lparr>ptype = Str (u16 ''String''), pname = fieldFallback index\<rparr>
     else (case indexOf raw colon of
         Some colonIdx \<Rightarrow>
           (let name0 = sanitizeIdentifier U (trim (take colonIdx raw)) (fieldFallback index);
                type0 = trim (safeStr (drop (colonIdx + 1) raw) (u16 ''String''))
            in \<lparr>ptype = mapToJavaType type0, pname = toCamelCase U name0\<rparr>)
       | None \<Rightarrow>
           (let parts = tokens raw in
            if length parts = 2 \<and> isJavaType (parts ! 0)
            then \<lparr>ptype = mapToJavaType (parts ! 0),
                  pname = toCamelCase U (sanitizeIdentifier U (parts ! 1) (fieldFallback index))\<rparr>
            else \<lparr>ptype = Str (u16 ''String''),
                  pname = toCamelCase U (sanitizeIdentifier U raw (fieldFallback index))\<rparr>)))"

section \<open>Entity fields\<close>

text \<open>
  \<open>generateFields\<close> pushes one text block per field onto \<open>lines\<close>. The model
  keeps each pushed block as a value of \<open>Field\<close>, which records the parts that the
  template interpolates, and \<open>renderField\<close> gives the exact text of the block.
  The constructors are the distinct templates of the source:
  the column of an attribute; the owning and the inverse side of a one-to-one relation;
  the scalar many-to-one reference (pushed for the source of MANY_TO_ONE and for the
  target of ONE_TO_MANY); the one-to-many collection (pushed for the source of
  ONE_TO_MANY and for the target of a bidirectional MANY_TO_ONE); the owning and the
  inverse side of a many-to-many relation.
\<close>

datatype Field =
    Column jsvalue jsstring
  | OneToOneOwning (joinColumnOf: jsstring) jsstring jsstring
  | OneToOneInverse (mappedByOf: jsstring) jsstring jsstring
  | ManyToOneRef (joinColumnOf: jsstring) jsstring jsstring
  | OneToManyColl (mappedByOf: jsstring) jsstring jsstring
  | ManyToManyOwning (joinTableOf: jsstring) (joinColumnOf: jsstring) jsstring jsstring jsstring
  | ManyToManyInverse (mappedByOf: jsstring) jsstring jsstring

text \<open>The identifier that the block declares (the word before the semicolon or the initialiser).\<close>

fun fieldName :: "Field \<Rightarrow> jsstring" where
  "fieldName (Column t n) = n"
| "fieldName (OneToOneOwning jc other n) = n"
| "fieldName (OneToOneInverse mb other n) = n"
| "fieldName (ManyToOneRef jc other n) = n"
| "fieldName (OneToManyColl mb other n) = n"
| "fieldName (ManyToManyOwning jt jc ijc other n) = n"
| "fieldName (ManyToManyInverse mb other n) = n"

text \<open>A collection field declares \<open>Set<Other>\<close>; a scalar reference declares \<open>Other\<close>.\<close>

fun collectionOf :: "Field \<Rightarrow> jsstring option" where
  "collectionOf (OneToManyColl mb other n) = Some other"
| "collectionOf (ManyToManyOwning jt jc ijc other n) = Some other"
| "collectionOf (ManyToManyInverse mb other n) = Some other"
| "collectionOf _ = None"

fun scalarRefTo :: "Field \<Rightarrow> jsstring option" where
  "scalarRefTo (OneToOneOwning jc other n) = Some other"
| "scalarRefTo (OneToOneInverse mb other n) = Some other"
| "scalarRefTo (ManyToOneRef jc other n) = Some other"
| "scalarRefTo _ = None"

text \<open>
  Template interpolation \<open>${type}\<close> of a value: a string as it is; a built-in function
  of \<open>Object.prototype\<close> as the engine prints its source (V8's form is used), and the
  prototype object itself as \<open>[object Object]\<close>.
\<close>

definition jsToString :: "jsvalue \<Rightarrow> jsstring" where
  "jsToString v = (case v of
       Str s \<Rightarrow> s
     | Inherited k \<Rightarrow>
         if k = u16 ''__proto__'' then u16 ''[object Object]''
         else u16 ''function '' @ (if k = u16 ''constructor'' then u16 ''Object'' else k) @ u16 ''() { [native code] }'')"

definition jsonIgnoreLine :: jsstring where
  \<open>jsonIgnoreLine = u16 ''    @JsonIgnoreProperties({"hibernateLazyInitializer", "handler"})\<newline>''\<close>

fun renderField :: "UnicodeData \<Rightarrow> Field \<Rightarrow> jsstring" where
  \<open>renderField U (Column t n) =
     u16 ''    @Column(name = "'' @ toLowerCase U n @ u16 ''")\<newline>'' @
     u16 ''    private '' @ jsToString t @ u16 '' '' @ n @ u16 '';''\<close>
| \<open>renderField U (OneToOneOwning jc other n) =
     u16 ''    @OneToOne(cascade = CascadeType.ALL, fetch = FetchType.LAZY)\<newline>'' @
     u16 ''    @JoinColumn(name = "'' @ jc @ u16 ''")\<newline>'' @
     jsonIgnoreLine @
     u16 ''    private '' @ other @ u16 '' '' @ n @ u16 '';''\<close>
| \<open>renderField U (OneToOneInverse mb other n) =
     u16 ''    @OneToOne(mappedBy = "'' @ mb @ u16 ''", fetch = FetchType.LAZY)\<newline>'' @
     jsonIgnoreLine @
     u16 ''    private '' @ other @ u16 '' '' @ n @ u16 '';''\<close>
| \<open>renderField U (ManyToOneRef jc other n) =
     u16 ''    @ManyToOne(fetch = FetchType.LAZY)\<newline>'' @
     u16 ''    @JoinColumn(name = "'' @ jc @ u16 ''")\<newline>'' @
     jsonIgnoreLine @
     u16 ''    private '' @ other @ u16 '' '' @ n @ u16 '';''\<close>
| \<open>renderField U (OneToManyColl mb other n) =
     u16 ''    @OneToMany(mappedBy = "'' @ mb @ u16 ''", cascade = CascadeType.ALL, fetch = FetchType.LAZY)\<newline>'' @
     jsonIgnoreLine @
     u16 ''    private Set<'' @ other @ u16 ''> '' @ n @ u16 '' = new HashSet<>();''\<close>
| \<open>renderField U (ManyToManyOwning jt jc ijc other n) =
     u16 ''    @ManyToMany(fetch = FetchType.LAZY)\<newline>'' @
     u16 ''    @JoinTable(\<newline>'' @
     u16 ''        name = "'' @ jt @ u16 ''",\<newline>'' @
     u16 ''        joinColumns = @JoinColumn(name = "'' @ jc @ u16 ''"),\<newline>'' @
     u16 ''        inverseJoinColumns = @JoinColumn(name = "'' @ ijc @ u16 ''")\<newline>'' @
     u16 ''    )\<newline>'' @
     jsonIgnoreLine @
     u16 ''    private Set<'' @ other @ u16 ''> '' @ n @ u16 '' = new HashSet<>();''\<close>
| \<open>renderField U (ManyToManyInverse mb other n) =
     u16 ''    @ManyToMany(mappedBy = "'' @ mb @ u16 ''", fetch = FetchType.LAZY)\<newline>'' @
     jsonIgnoreLine @
     u16 ''    private Set<'' @ other @ u16 ''> '' @ n @ u16 '' = new HashSet<>();''\<close>

text \<open>
  The loop state of \<open>generateFields\<close>: the set \<open>usedFieldNames\<close> and the array
  \<open>lines\<close>. The set starts as \<open>{"id"}\<close>.
\<close>

type_synonym FieldState = "jsstring set \<times> Field list"

definition attributeStep :: "UnicodeData \<Rightarrow> FieldState \<Rightarrow> jsstring \<times> nat \<Rightarrow> FieldState" where
  "attributeStep U st ai = (case st of (usedFieldNames, lines) \<Rightarrow> case ai of (a, i) \<Rightarrow>
     (let p = parseAttribute U a i in
      if pname p \<notin> usedFieldNames \<and> toLowerCase U (pname p) \<noteq> u16 ''id''
      then (insert (pname p) usedFieldNames, lines @ [Column (ptype p) (pname p)])
      else (usedFieldNames, lines)))"

definition attributeFields :: "UnicodeData \<Rightarrow> ClassDefinition \<Rightarrow> FieldState" where
  "attributeFields U cls =
     foldl (attributeStep U) ({u16 ''id''}, []) (zip (attributes cls) [0 ..< length (attributes cls)])"

text \<open>\<open>const otherClass = isSource ? r.target : r.source\<close>, as a function of its own.\<close>

definition otherClassOf :: "jsstring \<Rightarrow> RelationDefinition \<Rightarrow> jsstring" where
  "otherClassOf className r = (if source r = className then target r else source r)"

text \<open>The name that the relation loop reserves for a relation before its \<open>switch\<close>.\<close>

definition relationFieldName :: "UnicodeData \<Rightarrow> jsstring \<Rightarrow> RelationDefinition \<Rightarrow> jsstring" where
  "relationFieldName U className r =
     (let isSource = (source r = className);
          otherClass = (if isSource then target r else source r);
          otherVar = toCamelCase U otherClass;
          collNameFromOther = toPlural otherVar
      in if isSource then otherVar
         else if type r = ONE_TO_MANY \<or> type r = MANY_TO_MANY then collNameFromOther
         else otherVar)"

text \<open>The \<open>switch (r.type)\<close>: the blocks pushed for one relation that was not skipped.\<close>

definition relationLines :: "UnicodeData \<Rightarrow> jsstring \<Rightarrow> RelationDefinition \<Rightarrow> Field list" where
  "relationLines U className r =
     (let thisVar = toCamelCase U className;
          isSource = (source r = className);
          otherClass = (if isSource then target r else source r);
          otherVar = toCamelCase U otherClass;
          collNameFromOther = toPlural otherVar
      in case type r of
           ONE_TO_ONE \<Rightarrow>
             if isSource then [OneToOneOwning (toCamelCase U otherClass @ u16 ''_id'') otherClass otherVar]
             else if bidirectional r then [OneToOneInverse otherVar otherClass otherVar]
             else []
         | MANY_TO_ONE \<Rightarrow>
             if isSource then [ManyToOneRef (toCamelCase U otherClass @ u16 ''_id'') otherClass otherVar]
             else if bidirectional r
             then [OneToManyColl (toCamelCase U className) otherClass collNameFromOther]
             else []
         | ONE_TO_MANY \<Rightarrow>
             if isSource then [OneToManyColl thisVar otherClass (toPlural otherVar)]
             else [ManyToOneRef (toCamelCase U otherClass @ u16 ''_id'') otherClass otherVar]
         | MANY_TO_MANY \<Rightarrow>
             if isSource
             then (let joinTable = toLowerCase U className @ u16 ''_'' @ toLowerCase U otherClass in
                   [ManyToManyOwning joinTable (toCamelCase U className @ u16 ''_id'')
                      (toCamelCase U otherClass @ u16 ''_id'') otherClass (toPlural otherVar)])
             else if bidirectional r
             then [ManyToManyInverse (toPlural (toCamelCase U otherClass)) otherClass
                     (toPlural otherVar)]
             else [])"

definition relationStep :: "UnicodeData \<Rightarrow> jsstring \<Rightarrow> FieldState \<Rightarrow> RelationDefinition \<Rightarrow> FieldState" where
  "relationStep U className st r = (case st of (usedFieldNames, lines) \<Rightarrow>
     if relationFieldName U className r \<in> usedFieldNames then (usedFieldNames, lines)
     else (insert (relationFieldName U className r) usedFieldNames,
           lines @ relationLines U className r))"

definition incident :: "jsstring \<Rightarrow> RelationDefinition \<Rightarrow> bool" where
  "incident className r = (source r = className \<or> target r = className)"

text \<open>The array \<open>lines\<close> at the end of \<open>generateFields\<close>, before it is joined.\<close>

definition fieldList :: "UnicodeData \<Rightarrow> JavaSpringGenerator \<Rightarrow> ClassDefinition \<Rightarrow> Field list" where
  "fieldList U g cls =
     snd (foldl (relationStep U (name cls)) (attributeFields U cls)
            (filter (incident (name cls)) (relations g)))"

definition generateFields :: "UnicodeData \<Rightarrow> JavaSpringGenerator \<Rightarrow> ClassDefinition \<Rightarrow> jsstring" where
  "generateFields U g cls =
     join (u16 ''\<newline>\<newline>'')
       (filter (\<lambda>l. l \<noteq> []) (map (renderField U) (fieldList U g cls)))"

section \<open>Emitters\<close>

text \<open>
  The templates below are the template literals of the source, line by line; a code unit
  outside ASCII is written as its number.
\<close>

definition generateImports :: "JavaSpringGenerator \<Rightarrow> jsstring" where
  \<open>generateImports g =
     u16 ''package '' @ packageName g @ u16 ''.model;\<newline>'' @
     u16 ''\<newline>'' @
     u16 ''import jakarta.persistence.*;\<newline>'' @
     u16 ''import lombok.*;\<newline>'' @
     u16 ''import java.util.*;\<newline>'' @
     u16 ''import java.math.BigDecimal;\<newline>'' @
     u16 ''import java.time.LocalDate;\<newline>'' @
     u16 ''import java.time.LocalDateTime;\<newline>'' @
     u16 ''import java.util.UUID;\<newline>'' @
     u16 ''import com.fasterxml.jackson.annotation.*;\<newline>'' @
     u16 ''\<newline>''\<close>

definition generateClass :: "UnicodeData \<Rightarrow> JavaSpringGenerator \<Rightarrow> ClassDefinition \<Rightarrow> jsstring" where
  \<open>generateClass U g cls =
    (let className = toPascal U (name cls);
         varName = toCamelCase U className;
         body = generateFields U g cls
     in
     generateImports g @ u16 ''\<newline>'' @
     u16 ''@Entity\<newline>'' @
     u16 ''@Table(name = "'' @ toPlural (toLowerCase U className) @ u16 ''")\<newline>'' @
     u16 ''@Data\<newline>'' @
     u16 ''@NoArgsConstructor\<newline>'' @
     u16 ''@AllArgsConstructor\<newline>'' @
     u16 ''@Builder\<newline>'' @
     u16 ''public class '' @ className @ u16 '' {\<newline>'' @
     u16 ''    @Id\<newline>'' @
     u16 ''    @GeneratedValue(strategy = GenerationType.IDENTITY)\<newline>'' @
     u16 ''    private Long id;\<newline>'' @
     u16 ''\<newline>'' @
     (if body \<noteq> [] then u16 ''\<newline>'' @ body @ u16 ''\<newline>'' else []) @ u16 ''\<newline>'' @
     u16 ''\<newline>'' @
     u16 ''    @Override\<newline>'' @
     u16 ''    public boolean equals(Object o) {\<newline>'' @
     u16 ''        if (this == o) return true;\<newline>'' @
     u16 ''        if (o == null || getClass() != o.getClass()) return false;\<newline>'' @
     u16 ''        '' @ className @ u16 '' '' @ varName @ u16 '' = ('' @ className @ u16 '') o;\<newline>'' @
     u16 ''        return Objects.equals(id, '' @ varName @ u16 ''.id);\<newline>'' @
     u16 ''    }\<newline>'' @
     u16 ''\<newline>'' @
     u16 ''    @Override\<newline>'' @
     u16 ''    public int hashCode() {\<newline>'' @
     u16 ''        return Objects.hash(id);\<newline>'' @
     u16 ''    }\<newline>'' @
     u16 ''\<newline>'' @
     u16 ''    @Override\<newline>'' @
     u16 ''    public String toString() {\<newline>'' @
     u16 ''        return "'' @ className @ u16 ''{id=" + id + "}";\<newline>'' @
     u16 ''    }\<newline>'' @
     u16 ''}'')\<close>

text \<open>
  The fields that the entity class declares, in order: the surrogate \<open>id\<close> of the class
  template, then the blocks of \<open>generateFields\<close>.
\<close>

definition entityFieldNames :: "UnicodeData \<Rightarrow> JavaSpringGenerator \<Rightarrow> ClassDefinition \<Rightarrow> jsstring list" where
  "entityFieldNames U g cls = u16 ''id'' # map fieldName (fieldList U g cls)"

subsection \<open>Data-transfer object\<close>

text \<open>
  \<open>addTypeImport\<close> adds to the insertion-ordered set \<open>imports\<close>; the
  \<open>switch\<close> compares with \<open>===\<close>, so only a string can match.
\<close>

definition setAdd :: "jsstring \<Rightarrow> jsstring list \<Rightarrow> jsstring list" where
  "setAdd x xs = (if x \<in> set xs then xs else xs @ [x])"

definition addTypeImport :: "jsvalue \<Rightarrow> jsstring list \<Rightarrow> jsstring list" where
  "addTypeImport t imports =
     (if t = Str (u16 ''BigDecimal'') then setAdd (u16 ''import java.math.BigDecimal;'') imports
      else if t = Str (u16 ''LocalDate'') then setAdd (u16 ''import java.time.LocalDate;'') imports
      else if t = Str (u16 ''LocalDateTime'') then setAdd (u16 ''import java.time.LocalDateTime;'') imports
      else if t = Str (u16 ''UUID'') then setAdd (u16 ''import java.util.UUID;'') imports
      else imports)"

text \<open>
  The loop state of \<open>generateDTO\<close>: \<open>usedFieldNames\<close>, the parsed attributes kept
  (one line \<open>private type name;\<close> each in \<open>fieldDefinitions\<close>), and \<open>imports\<close>.
\<close>

type_synonym DtoState = "jsstring set \<times> ParsedAttr list \<times> jsstring list"

definition dtoStep :: "UnicodeData \<Rightarrow> DtoState \<Rightarrow> jsstring \<times> nat \<Rightarrow> DtoState" where
  "dtoStep U st ai = (case st of (usedFieldNames, fieldDefinitions, imports) \<Rightarrow> case ai of (attr, i) \<Rightarrow>
     (let p = parseAttribute U attr i in
      if pname p \<notin> usedFieldNames \<and> toLowerCase U (pname p) \<noteq> u16 ''id''
      then (insert (pname p) usedFieldNames, fieldDefinitions @ [p],
            addTypeImport (ptype p) imports)
      else (usedFieldNames, fieldDefinitions, imports)))"

definition dtoState :: "UnicodeData \<Rightarrow> ClassDefinition \<Rightarrow> DtoState" where
  "dtoState U cls =
     foldl (dtoStep U) ({u16 ''id''}, [], []) (zip (attributes cls) [0 ..< length (attributes cls)])"

definition dtoFields :: "UnicodeData \<Rightarrow> ClassDefinition \<Rightarrow> ParsedAttr list" where
  "dtoFields U cls = fst (snd (dtoState U cls))"

definition dtoFieldLine :: "ParsedAttr \<Rightarrow> jsstring" where
  "dtoFieldLine p = u16 ''    private '' @ jsToString (ptype p) @ u16 '' '' @ pname p @ u16 '';''"

definition generateDTO :: "UnicodeData \<Rightarrow> JavaSpringGenerator \<Rightarrow> ClassDefinition \<Rightarrow> jsstring" where
  \<open>generateDTO U g cls =
    (let className = toPascal U (name cls);
         fieldDefinitions = map dtoFieldLine (dtoFields U cls);
         imports = snd (snd (dtoState U cls));
         importSection = join (u16 ''\<newline>'') (sort imports);
         importBlock = (if imports \<noteq> [] then u16 ''\<newline>'' @ importSection @ u16 ''\<newline>'' else [])
     in
     u16 ''package '' @ packageName g @ u16 ''.dto;\<newline>'' @
     u16 ''\<newline>'' @
     u16 ''import lombok.*;'' @ importBlock @ u16 ''\<newline>'' @
     u16 ''\<newline>'' @
     u16 ''@Data\<newline>'' @
     u16 ''@NoArgsConstructor\<newline>'' @
     u16 ''@AllArgsConstructor\<newline>'' @
     u16 ''public class '' @ className @ u16 ''DTO {\<newline>'' @
     u16 ''    private Long id;\<newline>'' @
     (if fieldDefinitions \<noteq> [] then u16 ''\<newline>'' @ join (u16 ''\<newline>'') fieldDefinitions @ u16 ''\<newline>'' else []) @ u16 ''\<newline>'' @
     u16 ''}'')\<close>

text \<open>
  The fields that the transfer class declares, in order: the \<open>id\<close> of the template, then
  the kept attributes.
\<close>

definition dtoFieldNames :: "UnicodeData \<Rightarrow> ClassDefinition \<Rightarrow> jsstring list" where
  "dtoFieldNames U cls = u16 ''id'' # map pname (dtoFields U cls)"

subsection \<open>Repository, service and controller\<close>

definition generateRepository :: "UnicodeData \<Rightarrow> JavaSpringGenerator \<Rightarrow> ClassDefinition \<Rightarrow> jsstring" where
  \<open>generateRepository U g cls =
    (let className = toPascal U (name cls)
     in
     u16 ''package '' @ packageName g @ u16 ''.repository;\<newline>'' @
     u16 ''\<newline>'' @
     u16 ''import '' @ packageName g @ u16 ''.model.'' @ className @ u16 '';\<newline>'' @
     u16 ''import org.springframework.data.jpa.repository.JpaRepository;\<newline>'' @
     u16 ''import org.springframework.stereotype.Repository;\<newline>'' @
     u16 ''\<newline>'' @
     u16 ''@Repository\<newline>'' @
     u16 ''public interface '' @ className @ u16 ''Repository extends JpaRepository<'' @ className @ u16 '', Long> {\<newline>'' @
     u16 ''}'')\<close>

definition generateService :: "UnicodeData \<Rightarrow> JavaSpringGenerator \<Rightarrow> ClassDefinition \<Rightarrow> jsstring" where
  \<open>generateService U g cls =
    (let className = toPascal U (name cls);
         varName = toCamelCase U className;
         repoName = className @ u16 ''Repository'';
         repoVar = varName @ u16 ''Repository'';
         dtoName = className @ u16 ''DTO''
     in
     u16 ''package '' @ packageName g @ u16 ''.service;\<newline>'' @
     u16 ''\<newline>'' @
     u16 ''import '' @ packageName g @ u16 ''.dto.'' @ dtoName @ u16 '';\<newline>'' @
     u16 ''import '' @ packageName g @ u16 ''.model.'' @ className @ u16 '';\<newline>'' @
     u16 ''import '' @ packageName g @ u16 ''.repository.'' @ repoName @ u16 '';\<newline>'' @
     u16 ''import org.modelmapper.ModelMapper;\<newline>'' @
     u16 ''import org.springframework.stereotype.Service;\<newline>'' @
     u16 ''import org.springframework.transaction.annotation.Transactional;\<newline>'' @
     u16 ''\<newline>'' @
     u16 ''import java.util.List;\<newline>'' @
     u16 ''import java.util.stream.Collectors;\<newline>'' @
     u16 ''\<newline>'' @
     u16 ''@Service\<newline>'' @
     u16 ''@Transactional\<newline>'' @
     u16 ''public class '' @ className @ u16 ''Service {\<newline>'' @
     u16 ''\<newline>'' @
     u16 ''    private final '' @ repoName @ u16 '' '' @ repoVar @ u16 '';\<newline>'' @
     u16 ''    private final ModelMapper modelMapper;\<newline>'' @
     u16 ''\<newline>'' @
     u16 ''    public '' @ className @ u16 ''Service('' @ repoName @ u16 '' '' @ repoVar @ u16 '', ModelMapper modelMapper) {\<newline>'' @
     u16 ''        this.'' @ repoVar @ u16 '' = '' @ repoVar @ u16 '';\<newline>'' @
     u16 ''        this.modelMapper = modelMapper;\<newline>'' @
     u16 ''    }\<newline>'' @
     u16 ''\<newline>'' @
     u16 ''    @Transactional(readOnly = true)\<newline>'' @
     u16 ''    public List<'' @ dtoName @ u16 ''> findAll() {\<newline>'' @
     u16 ''        return '' @ repoVar @ u16 ''.findAll().stream()\<newline>'' @
     u16 ''                .map(entity -> modelMapper.map(entity, '' @ dtoName @ u16 ''.class))\<newline>'' @
     u16 ''                .collect(Collectors.toList());\<newline>'' @
     u16 ''    }\<newline>'' @
     u16 ''\<newline>'' @
     u16 ''    @Transactional(readOnly = true)\<newline>'' @
     u16 ''    public '' @ dtoName @ u16 '' findById(Long id) {\<newline>'' @
     u16 ''        '' @ className @ u16 '' entity = '' @ repoVar @ u16 ''.findById(id)\<newline>'' @
     u16 ''                .orElseThrow(() -> new RuntimeException("'' @ className @ u16 '' not found with id: " + id));\<newline>'' @
     u16 ''        return modelMapper.map(entity, '' @ dtoName @ u16 ''.class);\<newline>'' @
     u16 ''    }\<newline>'' @
     u16 ''\<newline>'' @
     u16 ''    public '' @ dtoName @ u16 '' create('' @ dtoName @ u16 '' dto) {\<newline>'' @
     u16 ''        try {\<newline>'' @
     u16 ''            '' @ className @ u16 '' entity = modelMapper.map(dto, '' @ className @ u16 ''.class);\<newline>'' @
     u16 ''            // '' @ [0x2705] @ u16 '' NO usar setId(null) - Lombok @Data maneja esto\<newline>'' @
     u16 ''            '' @ className @ u16 '' savedEntity = '' @ repoVar @ u16 ''.save(entity);\<newline>'' @
     u16 ''            return modelMapper.map(savedEntity, '' @ dtoName @ u16 ''.class);\<newline>'' @
     u16 ''        } catch (Exception e) {\<newline>'' @
     u16 ''            throw new RuntimeException("Error creating '' @ className @ u16 '': " + e.getMessage(), e);\<newline>'' @
     u16 ''        }\<newline>'' @
     u16 ''    }\<newline>'' @
     u16 ''\<newline>'' @
     u16 ''    public '' @ dtoName @ u16 '' update(Long id, '' @ dtoName @ u16 '' dto) {\<newline>'' @
     u16 ''        try {\<newline>'' @
     u16 ''            '' @ className @ u16 '' existing = '' @ repoVar @ u16 ''.findById(id)\<newline>'' @
     u16 ''                .orElseThrow(() -> new RuntimeException("'' @ className @ u16 '' not found with id: " + id));\<newline>'' @
     u16 ''            \<newline>'' @
     u16 ''            // '' @ [0x2705] @ u16 '' Mapear solo los campos, preservando el ID\<newline>'' @
     u16 ''            Long originalId = existing.getId();\<newline>'' @
     u16 ''            modelMapper.map(dto, existing);\<newline>'' @
     u16 ''            existing.setId(originalId); // Restaurar ID original\<newline>'' @
     u16 ''            \<newline>'' @
     u16 ''            '' @ className @ u16 '' savedEntity = '' @ repoVar @ u16 ''.save(existing);\<newline>'' @
     u16 ''            return modelMapper.map(savedEntity, '' @ dtoName @ u16 ''.class);\<newline>'' @
     u16 ''        } catch (Exception e) {\<newline>'' @
     u16 ''            throw new RuntimeException("Error updating '' @ className @ u16 '': " + e.getMessage(), e);\<newline>'' @
     u16 ''        }\<newline>'' @
     u16 ''    }\<newline>'' @
     u16 ''\<newline>'' @
     u16 ''    public void delete(Long id) {\<newline>'' @
     u16 ''        try {\<newline>'' @
     u16 ''            if (!'' @ repoVar @ u16 ''.existsById(id)) {\<newline>'' @
     u16 ''                throw new RuntimeException("'' @ className @ u16 '' not found with id: " + id);\<newline>'' @
     u16 ''            }\<newline>'' @
     u16 ''            '' @ repoVar @ u16 ''.deleteById(id);\<newline>'' @
     u16 ''        } catch (Exception e) {\<newline>'' @
     u16 ''            throw new RuntimeException("Error deleting '' @ className @ u16 '': " + e.getMessage(), e);\<newline>'' @
     u16 ''        }\<newline>'' @
     u16 ''    }\<newline>'' @
     u16 ''}'')\<close>

definition generateController :: "UnicodeData \<Rightarrow> JavaSpringGenerator \<Rightarrow> ClassDefinition \<Rightarrow> jsstring" where
  \<open>generateController U g cls =
    (let className = toPascal U (name cls);
         varName = toCamelCase U className;
         dtoName = className @ u16 ''DTO'';
         basePath = u16 ''"/api/'' @ toPlural varName @ u16 ''"''
     in
     u16 ''package '' @ packageName g @ u16 ''.controller;\<newline>'' @
     u16 ''\<newline>'' @
     u16 ''import '' @ packageName g @ u16 ''.dto.'' @ dtoName @ u16 '';\<newline>'' @
     u16 ''import '' @ packageName g @ u16 ''.service.'' @ className @ u16 ''Service;\<newline>'' @
     u16 ''import org.springframework.http.ResponseEntity;\<newline>'' @
     u16 ''import org.springframework.web.bind.annotation.*;\<newline>'' @
     u16 ''\<newline>'' @
     u16 ''import java.util.List;\<newline>'' @
     u16 ''\<newline>'' @
     u16 ''@RestController\<newline>'' @
     u16 ''@RequestMapping('' @ basePath @ u16 '')\<newline>'' @
     u16 ''public class '' @ className @ u16 ''Controller {\<newline>'' @
     u16 ''\<newline>'' @
     u16 ''    private final '' @ className @ u16 ''Service '' @ varName @ u16 ''Service;\<newline>'' @
     u16 ''\<newline>'' @
     u16 ''    public '' @ className @ u16 ''Controller('' @ className @ u16 ''Service '' @ varName @ u16 ''Service) {\<newline>'' @
     u16 ''        this.'' @ varName @ u16 ''Service = '' @ varName @ u16 ''Service;\<newline>'' @
     u16 ''    }\<newline>'' @
     u16 ''\<newline>'' @
     u16 ''    @GetMapping\<newline>'' @
     u16 ''    public ResponseEntity<List<'' @ dtoName @ u16 ''>> getAll() {\<newline>'' @
     u16 ''        return ResponseEntity.ok('' @ varName @ u16 ''Service.findAll());\<newline>'' @
     u16 ''    }\<newline>'' @
     u16 ''\<newline>'' @
     u16 ''    @GetMapping("/{id}")\<newline>'' @
     u16 ''    public ResponseEntity<'' @ dtoName @ u16 ''> getById(@PathVariable Long id) {\<newline>'' @
     u16 ''        try {\<newline>'' @
     u16 ''            return ResponseEntity.ok('' @ varName @ u16 ''Service.findById(id));\<newline>'' @
     u16 ''        } catch (RuntimeException e) {\<newline>'' @
     u16 ''            return ResponseEntity.notFound().build();\<newline>'' @
     u16 ''        }\<newline>'' @
     u16 ''    }\<newline>'' @
     u16 ''\<newline>'' @
     u16 ''    @PostMapping\<newline>'' @
     u16 ''    public ResponseEntity<'' @ dtoName @ u16 ''> create(@RequestBody '' @ dtoName @ u16 '' dto) {\<newline>'' @
     u16 ''        return ResponseEntity.ok('' @ varName @ u16 ''Service.create(dto));\<newline>'' @
     u16 ''    }\<newline>'' @
     u16 ''\<newline>'' @
     u16 ''    @PutMapping("/{id}")\<newline>'' @
     u16 ''    public ResponseEntity<'' @ dtoName @ u16 ''> update(@PathVariable Long id, @RequestBody '' @ dtoName @ u16 '' dto) {\<newline>'' @
     u16 ''        try {\<newline>'' @
     u16 ''            return ResponseEntity.ok('' @ varName @ u16 ''Service.update(id, dto));\<newline>'' @
     u16 ''        } catch (RuntimeException e) {\<newline>'' @
     u16 ''            return ResponseEntity.notFound().build();\<newline>'' @
     u16 ''        }\<newline>'' @
     u16 ''    }\<newline>'' @
     u16 ''\<newline>'' @
     u16 ''    @DeleteMapping("/{id}")\<newline>'' @
     u16 ''    public ResponseEntity<Void> delete(@PathVariable Long id) {\<newline>'' @
     u16 ''        try {\<newline>'' @
     u16 ''            '' @ varName @ u16 ''Service.delete(id);\<newline>'' @
     u16 ''            return ResponseEntity.noContent().build();\<newline>'' @
     u16 ''        } catch (RuntimeException e) {\<newline>'' @
     u16 ''            return ResponseEntity.notFound().build();\<newline>'' @
     u16 ''        }\<newline>'' @
     u16 ''    }\<newline>'' @
     u16 ''}'')\<close>

subsection \<open>Static scaffolding\<close>

definition generatePomXml :: jsstring where
  \<open>generatePomXml =
     u16 ''<?xml version="1.0" encoding="UTF-8"?>\<newline>'' @
     u16 ''<project xmlns="http://maven.apache.org/POM/4.0.0"\<newline>'' @
     u16 ''         xmlns:xsi="http://www.w3.org/2001/XMLSchema-instance"\<newline>'' @
     u16 ''         xsi:schemaLocation="http://maven.apache.org/POM/4.0.0 https://maven.apache.org/xsd/maven-4.0.0.xsd">\<newline>'' @
     u16 ''    <modelVersion>4.0.0</modelVersion>\<newline>'' @
     u16 ''    <parent>\<newline>'' @
     u16 ''        <groupId>org.springframework.boot</groupId>\<newline>'' @
     u16 ''        <artifactId>spring-boot-starter-parent</artifactId>\<newline>'' @
     u16 ''        <version>3.2.0</version>\<newline>'' @
     u16 ''        <relativePath/>\<newline>'' @
     u16 ''    </parent>\<newline>'' @
     u16 ''    \<newline>'' @
     u16 ''    <groupId>com.example</groupId>\<newline>'' @
     u16 ''    <artifactId>spring-boot-project</artifactId>\<newline>'' @
     u16 ''    <version>0.0.1-SNAPSHOT</version>\<newline>'' @
     u16 ''    <name>Generated Spring Boot Project</name>\<newline>'' @
     u16 ''    \<newline>'' @
     u16 ''    <properties>\<newline>'' @
     u16 ''        <java.version>17</java.version>\<newline>'' @
     u16 ''    </properties>\<newline>'' @
     u16 ''    \<newline>'' @
     u16 ''    <dependencies>\<newline>'' @
     u16 ''        <dependency>\<newline>'' @
     u16 ''            <groupId>org.springframework.boot</groupId>\<newline>'' @
     u16 ''            <artifactId>spring-boot-starter-web</artifactId>\<newline>'' @
     u16 ''        </dependency>\<newline>'' @
     u16 ''        <dependency>\<newline>'' @
     u16 ''            <groupId>org.springframework.boot</groupId>\<newline>'' @
     u16 ''            <artifactId>spring-boot-starter-data-jpa</artifactId>\<newline>'' @
     u16 ''        </dependency>\<newline>'' @
     u16 ''        <dependency>\<newline>'' @
     u16 ''            <groupId>com.h2database</groupId>\<newline>'' @
     u16 ''            <artifactId>h2</artifactId>\<newline>'' @
     u16 ''            <scope>runtime</scope>\<newline>'' @
     u16 ''        </dependency>\<newline>'' @
     u16 ''        <dependency>\<newline>'' @
     u16 ''            <groupId>org.projectlombok</groupId>\<newline>'' @
     u16 ''            <artifactId>lombok</artifactId>\<newline>'' @
     u16 ''            <optional>true</optional>\<newline>'' @
     u16 ''        </dependency>\<newline>'' @
     u16 ''        <dependency>\<newline>'' @
     u16 ''            <groupId>org.modelmapper</groupId>\<newline>'' @
     u16 ''            <artifactId>modelmapper</artifactId>\<newline>'' @
     u16 ''            <version>3.1.1</version>\<newline>'' @
     u16 ''        </dependency>\<newline>'' @
     u16 ''    </dependencies>\<newline>'' @
     u16 ''    \<newline>'' @
     u16 ''    <build>\<newline>'' @
     u16 ''        <plugins>\<newline>'' @
     u16 ''            <plugin>\<newline>'' @
     u16 ''                <groupId>org.springframework.boot</groupId>\<newline>'' @
     u16 ''                <artifactId>spring-boot-maven-plugin</artifactId>\<newline>'' @
     u16 ''                <configuration>\<newline>'' @
     u16 ''                    <excludes>\<newline>'' @
     u16 ''                        <exclude>\<newline>'' @
     u16 ''                            <groupId>org.projectlombok</groupId>\<newline>'' @
     u16 ''                            <artifactId>lombok</artifactId>\<newline>'' @
     u16 ''                        </exclude>\<newline>'' @
     u16 ''                    </excludes>\<newline>'' @
     u16 ''                </configuration>\<newline>'' @
     u16 ''            </plugin>\<newline>'' @
     u16 ''        </plugins>\<newline>'' @
     u16 ''    </build>\<newline>'' @
     u16 ''</project>''\<close>

definition generateApplicationProperties :: jsstring where
  \<open>generateApplicationProperties =
     u16 ''# Configuraci'' @ [0xF3] @ u16 ''n de base de datos H2 (en memoria para desarrollo)\<newline>'' @
     u16 ''spring.datasource.url=jdbc:h2:mem:testdb\<newline>'' @
     u16 ''spring.datasource.driver-class-name=org.h2.Driver\<newline>'' @
     u16 ''spring.datasource.username=sa\<newline>'' @
     u16 ''spring.datasource.password=\<newline>'' @
     u16 ''\<newline>'' @
     u16 ''# JPA/Hibernate configuraci'' @ [0xF3] @ u16 ''n\<newline>'' @
     u16 ''spring.jpa.database-platform=org.hibernate.dialect.H2Dialect\<newline>'' @
     u16 ''spring.jpa.hibernate.ddl-auto=create-drop\<newline>'' @
     u16 ''spring.jpa.show-sql=true\<newline>'' @
     u16 ''spring.jpa.defer-datasource-initialization=true\<newline>'' @
     u16 ''\<newline>'' @
     u16 ''# H2 Console\<newline>'' @
     u16 ''spring.h2.console.enabled=true\<newline>'' @
     u16 ''spring.h2.console.path=/h2-console\<newline>'' @
     u16 ''\<newline>'' @
     u16 ''# Configuraci'' @ [0xF3] @ u16 ''n del servidor\<newline>'' @
     u16 ''server.port=8080\<newline>'' @
     u16 ''\<newline>'' @
     u16 ''# '' @ [0x2705] @ u16 '' LOGGING DETALLADO PARA DEBUG\<newline>'' @
     u16 ''logging.level.org.springframework.web=INFO\<newline>'' @
     u16 ''logging.level.org.hibernate=INFO\<newline>'' @
     u16 ''logging.level.org.springframework.context=DEBUG\<newline>'' @
     u16 ''logging.level.org.springframework.beans=DEBUG\<newline>'' @
     u16 ''logging.level.com.example=DEBUG\<newline>'' @
     u16 ''\<newline>'' @
     u16 ''# Jackson configuraci'' @ [0xF3] @ u16 ''n\<newline>'' @
     u16 ''spring.jackson.serialization.fail-on-empty-beans=false\<newline>'' @
     u16 ''spring.jackson.serialization.fail-on-self-references=false\<newline>'' @
     u16 ''\<newline>'' @
     u16 ''# '' @ [0x2705] @ u16 '' Desactivar inicializaci'' @ [0xF3] @ u16 ''n autom'' @ [0xE1] @ u16 ''tica problem'' @ [0xE1] @ u16 ''tica\<newline>'' @
     u16 ''spring.jpa.open-in-view=false\<newline>''\<close>

definition generateMainApplication :: jsstring where
  \<open>generateMainApplication =
     u16 ''package com.example;\<newline>'' @
     u16 ''\<newline>'' @
     u16 ''import org.springframework.boot.SpringApplication;\<newline>'' @
     u16 ''import org.springframework.boot.autoconfigure.SpringBootApplication;\<newline>'' @
     u16 ''\<newline>'' @
     u16 ''@SpringBootApplication\<newline>'' @
     u16 ''public class Application {\<newline>'' @
     u16 ''    public static void main(String[] args) {\<newline>'' @
     u16 ''        SpringApplication.run(Application.class, args);\<newline>'' @
     u16 ''    }\<newline>'' @
     u16 ''}''\<close>

definition generateModelMapperConfig :: jsstring where
  \<open>generateModelMapperConfig =
     u16 ''package com.example.config;\<newline>'' @
     u16 ''\<newline>'' @
     u16 ''import org.modelmapper.ModelMapper;\<newline>'' @
     u16 ''import org.springframework.context.annotation.Bean;\<newline>'' @
     u16 ''import org.springframework.context.annotation.Configuration;\<newline>'' @
     u16 ''\<newline>'' @
     u16 ''@Configuration\<newline>'' @
     u16 ''public class ModelMapperConfig {\<newline>'' @
     u16 ''\<newline>'' @
     u16 ''    @Bean\<newline>'' @
     u16 ''    public ModelMapper modelMapper() {\<newline>'' @
     u16 ''        return new ModelMapper();\<newline>'' @
     u16 ''    }\<newline>'' @
     u16 ''}''\<close>

section \<open>API collection documents\<close>

text \<open>
  The values handed to \<open>JSON.stringify(value, null, 2)\<close>: strings, the numbers
  \<open>1\<close> and \<open>1.0\<close> (the same JavaScript number, printed \<open>1\<close>), booleans, arrays,
  and objects with their properties in insertion order.
\<close>

datatype json =
    JString jsstring
  | JNumber int
  | JBool bool
  | JArray "json list"
  | JObject "(jsstring \<times> json) list"

definition hexDigit :: "nat \<Rightarrow> nat" where
  "hexDigit d = (if d < 10 then 48 + d else 87 + d)"

definition unicodeEscape :: "nat \<Rightarrow> jsstring" where
  "unicodeEscape c = [92, 117, hexDigit (c div 4096 mod 16), hexDigit (c div 256 mod 16),
     hexDigit (c div 16 mod 16), hexDigit (c mod 16)]"

text \<open>
  \<open>QuoteJSONString\<close> reads the string by code points: the characters with a short
  escape, then \<open>\uXXXX\<close> for the other control characters and for a surrogate that
  stands alone; everything else, a surrogate pair too, is copied.
\<close>

definition quoteCodeUnit :: "nat \<Rightarrow> jsstring" where
  "quoteCodeUnit c =
     (if c = 8 then [92, 98]
      else if c = 9 then [92, 116]
      else if c = 10 then [92, 110]
      else if c = 12 then [92, 102]
      else if c = 13 then [92, 114]
      else if c = 34 then [92, 34]
      else if c = 92 then [92, 92]
      else if c < 32 \<or> isLeadSurrogate c \<or> isTrailSurrogate c then unicodeEscape c
      else [c])"

fun quoteUnits :: "jsstring \<Rightarrow> jsstring" where
  "quoteUnits [] = []"
| "quoteUnits [c] = quoteCodeUnit c"
| "quoteUnits (h # l # rest) =
     (if surrogatePair h l then h # l # quoteUnits rest
      else quoteCodeUnit h @ quoteUnits (l # rest))"

definition quoteJson :: "jsstring \<Rightarrow> jsstring" where
  "quoteJson s = [34] @ quoteUnits s @ [34]"

text \<open>
  Code units that \<open>JSON.stringify\<close> copies into a string literal unchanged, whatever
  their neighbours: no quote, no backslash, no control character and no surrogate.
\<close>

definition plainUnit :: "nat \<Rightarrow> bool" where
  "plainUnit c = (32 \<le> c \<and> c < 0xD800 \<and> c \<noteq> 34 \<and> c \<noteq> 92)"

definition intToString :: "int \<Rightarrow> jsstring" where
  "intToString i = (if i < 0 then [45] @ natToString (nat (- i)) else natToString (nat i))"

text \<open>\<open>stringify ind v\<close>: the text of \<open>v\<close> when the enclosing indentation is \<open>ind\<close>.\<close>

fun stringify :: "jsstring \<Rightarrow> json \<Rightarrow> jsstring" where
  "stringify ind (JString s) = quoteJson s"
| "stringify ind (JNumber n) = intToString n"
| "stringify ind (JBool b) = (if b then u16 ''true'' else u16 ''false'')"
| "stringify ind (JArray xs) =
     (if xs = [] then u16 ''[]''
      else u16 ''[\<newline>'' @
           join (u16 '',\<newline>'')
             (map (\<lambda>x. ind @ u16 ''  '' @ stringify (ind @ u16 ''  '') x) xs) @
           u16 ''\<newline>'' @ ind @ u16 '']'')"
| "stringify ind (JObject kvs) =
     (if kvs = [] then u16 ''{}''
      else u16 ''{\<newline>'' @
           join (u16 '',\<newline>'')
             (map (\<lambda>kv. ind @ u16 ''  '' @ quoteJson (fst kv) @ u16 '': ''
                        @ stringify (ind @ u16 ''  '') (snd kv)) kvs) @
           u16 ''\<newline>'' @ ind @ u16 ''}'')"

definition jsonStringify2 :: "json \<Rightarrow> jsstring" where
  "jsonStringify2 v = stringify [] v"

subsection \<open>Sample request body\<close>

text \<open>
  The assignment \<open>data[name] = value\<close> on the plain object \<open>data\<close>: an existing
  property keeps its place and takes the new value, a new one is appended. The key
  \<open>__proto__\<close> is the inherited accessor: assigning a string or a number to it creates
  no property. (No parsed name is an array index, since none starts with a digit.)
\<close>

fun assign :: "(jsstring \<times> json) list \<Rightarrow> jsstring \<Rightarrow> json \<Rightarrow> (jsstring \<times> json) list" where
  "assign [] k v = [(k, v)]"
| "assign ((k', v') # kvs) k v = (if k' = k then (k, v) # kvs else (k', v') # assign kvs k v)"

definition setProperty :: "(jsstring \<times> json) list \<Rightarrow> jsstring \<Rightarrow> json \<Rightarrow> (jsstring \<times> json) list" where
  "setProperty data k v = (if k = (u16 ''__proto__'') then data else assign data k v)"

text \<open>The \<open>switch (type)\<close> of \<open>generateSampleRequestBody\<close>.\<close>

definition sampleValue :: "jsvalue \<Rightarrow> jsstring \<Rightarrow> json" where
  "sampleValue t n =
     (if t = Str (u16 ''String'') then JString (u16 ''sample_'' @ n)
      else if t = Str (u16 ''Integer'') \<or> t = Str (u16 ''Long'') then JNumber 1
      else if t = Str (u16 ''Double'') \<or> t = Str (u16 ''Float'') then JNumber 1
      else if t = Str (u16 ''Boolean'') then JBool True
      else JString (u16 ''sample_'' @ n))"

definition sampleStep :: "UnicodeData \<Rightarrow> (jsstring \<times> json) list \<Rightarrow> jsstring \<times> nat \<Rightarrow> (jsstring \<times> json) list" where
  "sampleStep U data ai = (case ai of (attr, i) \<Rightarrow>
     (let p = parseAttribute U attr i in setProperty data (pname p) (sampleValue (ptype p) (pname p))))"

definition sampleData :: "UnicodeData \<Rightarrow> ClassDefinition \<Rightarrow> (jsstring \<times> json) list" where
  "sampleData U cls = foldl (sampleStep U) [] (zip (attributes cls) [0 ..< length (attributes cls)])"

definition generateSampleRequestBody :: "UnicodeData \<Rightarrow> ClassDefinition \<Rightarrow> jsstring" where
  "generateSampleRequestBody U cls = jsonStringify2 (JObject (sampleData U cls))"

subsection \<open>Collection and environment\<close>

definition requestUrl :: "jsstring \<Rightarrow> json" where
  "requestUrl endpoint = JObject [
     (u16 ''raw'', JString (u16 ''{{base_url}}/api/'' @ endpoint)),
     (u16 ''host'', JArray [JString (u16 ''{{base_url}}'')]),
     (u16 ''path'', JArray [JString (u16 ''api''), JString endpoint])]"

definition collectionItem :: "UnicodeData \<Rightarrow> ClassDefinition \<Rightarrow> json" where
  "collectionItem U cls =
    (let className = toPascal U (name cls);
         endpoint = toPlural (toCamelCase U className)
     in JObject [
       (u16 ''name'', JString (className @ (u16 '' CRUD''))),
       (u16 ''item'', JArray [
          JObject [
            (u16 ''name'', JString (u16 ''Get All '' @ toPlural className)),
            (u16 ''request'', JObject [
               (u16 ''method'', JString (u16 ''GET'')),
               (u16 ''header'', JArray [
                  JObject [(u16 ''key'', JString (u16 ''Accept'')), (u16 ''value'', JString (u16 ''application/json''))]]),
               (u16 ''url'', requestUrl endpoint)])],
          JObject [
            (u16 ''name'', JString (u16 ''Create '' @ className)),
            (u16 ''request'', JObject [
               (u16 ''method'', JString (u16 ''POST'')),
               (u16 ''header'', JArray [
                  JObject [(u16 ''key'', JString (u16 ''Content-Type'')), (u16 ''value'', JString (u16 ''application/json''))],
                  JObject [(u16 ''key'', JString (u16 ''Accept'')), (u16 ''value'', JString (u16 ''application/json''))]]),
               (u16 ''body'', JObject [
                  (u16 ''mode'', JString (u16 ''raw'')),
                  (u16 ''raw'', JString (generateSampleRequestBody U cls))]),
               (u16 ''url'', requestUrl endpoint)])]])])"

definition generatePostmanCollection :: "UnicodeData \<Rightarrow> JavaSpringGenerator \<Rightarrow> jsstring" where
  "generatePostmanCollection U g =
    (let collectionName = (u16 ''Generated API'');
         collection = JObject [
           (u16 ''info'', JObject [
              (u16 ''name'', JString collectionName),
              (u16 ''description'',
                 JString (u16 ''Colecci'' @ [0xF3] @ (u16 ''n generada autom'') @ [0xE1] @ (u16 ''ticamente''))),
              (u16 ''schema'',
                 JString (u16 ''https://schema.getpostman.com/json/collection/v2.1.0/collection.json''))]),
           (u16 ''item'', JArray (map (collectionItem U) (classes g))),
           (u16 ''variable'', JArray [
              JObject [
                (u16 ''key'', JString (u16 ''base_url'')),
                (u16 ''value'', JString (u16 ''http://localhost:8080'')),
                (u16 ''type'', JString (u16 ''string''))]])]
     in jsonStringify2 collection)"

text \<open>
  \<open>generatePostmanEnvironment\<close> reads the clock: \<open>now\<close> is the value of
  \<open>Date.now()\<close> at the call, the milliseconds since the epoch.
\<close>

definition generatePostmanEnvironment :: "nat \<Rightarrow> jsstring" where
  "generatePostmanEnvironment now =
    (let environment = JObject [
           (u16 ''id'', JString (natToString now @ (u16 ''-env''))),
           (u16 ''name'', JString (u16 ''Generated Environment'')),
           (u16 ''values'', JArray [
              JObject [
                (u16 ''key'', JString (u16 ''base_url'')),
                (u16 ''value'', JString (u16 ''http://localhost:8080'')),
                (u16 ''enabled'', JBool True),
                (u16 ''type'', JString (u16 ''default''))]]),
           (u16 ''_postman_variable_scope'', JString (u16 ''environment''))]
     in jsonStringify2 environment)"

section \<open>Project assembler\<close>

text \<open>
  \<open>generateAll\<close> fills the object \<open>result\<close> by assignments \<open>result[path] = text\<close>;
  the model is the finite map from path to text. The second argument is the clock value
  that \<open>generatePostmanEnvironment\<close> reads during the call.
\<close>

definition classFiles :: "UnicodeData \<Rightarrow> JavaSpringGenerator \<Rightarrow> (jsstring \<rightharpoonup> jsstring) \<Rightarrow> ClassDefinition
  \<Rightarrow> (jsstring \<rightharpoonup> jsstring)" where
  "classFiles U g result cls =
    (let className = toPascal U (name cls) in
     result
       (u16 ''src/main/java/com/example/model/'' @ className @ (u16 ''.java'') \<mapsto> generateClass U g cls,
        (u16 ''src/main/java/com/example/dto/'') @ className @ (u16 ''DTO.java'') \<mapsto> generateDTO U g cls,
        (u16 ''src/main/java/com/example/repository/'') @ className @ (u16 ''Repository.java'')
          \<mapsto> generateRepository U g cls,
        (u16 ''src/main/java/com/example/service/'') @ className @ (u16 ''Service.java'')
          \<mapsto> generateService U g cls,
        (u16 ''src/main/java/com/example/controller/'') @ className @ (u16 ''Controller.java'')
          \<mapsto> generateController U g cls))"

definition generateAll :: "UnicodeData \<Rightarrow> JavaSpringGenerator \<Rightarrow> nat \<Rightarrow> (jsstring \<rightharpoonup> jsstring)" where
  "generateAll U g now =
    (let result = Map.empty;
         result = result(u16 ''pom.xml'' \<mapsto> generatePomXml);
         result = result(u16 ''src/main/resources/application.properties''
                    \<mapsto> generateApplicationProperties);
         result = result(u16 ''src/main/java/com/example/Application.java''
                    \<mapsto> generateMainApplication);
         result = result(u16 ''src/main/java/com/example/config/ModelMapperConfig.java''
                    \<mapsto> generateModelMapperConfig);
         result = foldl (classFiles U g) result (classes g);
         result = result(u16 ''postman-collection.json'' \<mapsto> generatePostmanCollection U g);
         result = result(u16 ''postman-environment.json'' \<mapsto> generatePostmanEnvironment now)
     in result)"

section \<open>Loop invariants\<close>

text \<open>
  What the attribute loops of \<open>generateFields\<close> and \<open>generateDTO\<close> maintain:
  \<open>id\<close> stays reserved, every kept name is reserved and is not \<open>id\<close>, the kept
  names are pairwise distinct, and none of them is \<open>id\<close> in any letter case.
\<close>

definition attrInvariant :: "UnicodeData \<Rightarrow> FieldState \<Rightarrow> bool" where
  "attrInvariant U st = (u16 ''id'' \<in> fst st \<and> fieldName ` set (snd st) \<subseteq> fst st - {u16 ''id''}
     \<and> distinct (map fieldName (snd st))
     \<and> list_all (\<lambda>f. toLowerCase U (fieldName f) \<noteq> u16 ''id'') (snd st))"

definition dtoInvariant :: "UnicodeData \<Rightarrow> DtoState \<Rightarrow> bool" where
  "dtoInvariant U st = (u16 ''id'' \<in> fst st \<and> pname ` set (fst (snd st)) \<subseteq> fst st - {u16 ''id''}
     \<and> distinct (map pname (fst (snd st)))
     \<and> list_all (\<lambda>p. toLowerCase U (pname p) \<noteq> u16 ''id'') (fst (snd st)))"

section \<open>Words of the claims\<close>

text \<open>
  Two notions that the claims use and the code does not have, written down from the
  claims' words to compare the code with them. A consonant is a letter of the alphabet
  other than a, e, i, o, u, in either case. The currency signs (Unicode class \<open>Sc\<close>)
  below U+0100 are the dollar sign and U+00A2 to U+00A5.
\<close>

definition consonantAsClaimed :: "nat \<Rightarrow> bool" where
  "consonantAsClaimed c = ((isAsciiUpper c \<or> isAsciiLower c) \<and> c \<notin> set (u16 ''aeiouAEIOU''))"


section \<open>Example diagrams\<close>

text \<open>
  Small diagrams on which the theorems below evaluate the generator: an author with a
  text attribute \<open>books\<close> and a one-to-many relation to books; a class with a
  one-to-many relation to itself; students and courses in a bidirectional many-to-many
  relation.
\<close>

definition exAuthor :: ClassDefinition where
  "exAuthor = \<lparr>name = u16 ''Author'', attributes = map u16 [''books: String''], methods = []\<rparr>"

definition exBook :: ClassDefinition where
  "exBook = \<lparr>name = u16 ''Book'', attributes = map u16 [''title: String''], methods = []\<rparr>"

definition exWrites :: RelationDefinition where
  "exWrites = \<lparr>source = u16 ''Author'', target = u16 ''Book'', type = ONE_TO_MANY, bidirectional = False\<rparr>"

definition exLibrary :: JavaSpringGenerator where
  "exLibrary = addRelation exWrites (addClass exBook (addClass exAuthor (newGenerator (u16 ''com.example''))))"

definition exNode :: ClassDefinition where
  "exNode = \<lparr>name = u16 ''Node'', attributes = [], methods = []\<rparr>"

definition exChildren :: RelationDefinition where
  "exChildren = \<lparr>source = u16 ''Node'', target = u16 ''Node'', type = ONE_TO_MANY, bidirectional = True\<rparr>"

definition exTree :: JavaSpringGenerator where
  "exTree = addRelation exChildren (addClass exNode (newGenerator (u16 ''com.example'')))"

definition exStudent :: ClassDefinition where
  "exStudent = \<lparr>name = u16 ''Student'', attributes = [], methods = []\<rparr>"

definition exCourse :: ClassDefinition where
  "exCourse = \<lparr>name = u16 ''Course'', attributes = [], methods = []\<rparr>"

definition exEnrols :: RelationDefinition where
  "exEnrols = \<lparr>source = u16 ''Student'', target = u16 ''Course'', type = MANY_TO_MANY, bidirectional = True\<rparr>"

definition exSchool :: JavaSpringGenerator where
  "exSchool = addRelation exEnrols (addClass exCourse (addClass exStudent (newGenerator (u16 ''com.example''))))"

text \<open>
  A product with a decimal price; and an order that belongs to a class named \<open>Id\<close>
  through a one-to-many relation.
\<close>

definition exProduct :: ClassDefinition where
  "exProduct = \<lparr>name = u16 ''Product'', attributes = map u16 [''price: decimal''], methods = []\<rparr>"

definition exId :: ClassDefinition where
  "exId = \<lparr>name = u16 ''Id'', attributes = map u16 [''code: string''], methods = []\<rparr>"

definition exOrder :: ClassDefinition where
  "exOrder = \<lparr>name = u16 ''Order'', attributes = map u16 [''total: decimal''], methods = []\<rparr>"

definition exIdentifies :: RelationDefinition where
  "exIdentifies = \<lparr>source = u16 ''Id'', target = u16 ''Order'', type = ONE_TO_MANY, bidirectional = False\<rparr>"

definition exShop :: JavaSpringGenerator where
  "exShop = addRelation exIdentifies (addClass exOrder (addClass exId (newGenerator (u16 ''com.example''))))"

text \<open>
  A library in which the book has a text attribute \<open>authors\<close>; the name
  \<open>author\<close> is free on it.
\<close>

definition exWriter :: ClassDefinition where
  "exWriter = \<lparr>name = u16 ''Author'', attributes = map u16 [''name: String''], methods = []\<rparr>"

definition exBookAuthors :: ClassDefinition where
  "exBookAuthors = \<lparr>name = u16 ''Book'', attributes = map u16 [''authors: String''], methods = []\<rparr>"

definition exLibraryAuthors :: JavaSpringGenerator where
  "exLibraryAuthors =
     addRelation exWrites (addClass exBookAuthors (addClass exWriter (newGenerator (u16 ''com.example''))))"

text \<open>
  The library diagram that the repository's assistant proposes (\<open>getFallbackResponse\<close>):
  users, books and loans, a loan being the target of two one-to-many relations.
\<close>

definition exUsuario :: ClassDefinition where
  "exUsuario = \<lparr>name = u16 ''Usuario'',
     attributes = map u16 [''String nombre'', ''String email'', ''Date fechaRegistro''],
     methods = map u16 [''prestarLibro()'', ''devolverLibro()'', ''consultarHistorial()'']\<rparr>"

definition exLibro :: ClassDefinition where
  "exLibro = \<lparr>name = u16 ''Libro'',
     attributes = map u16 [''String titulo'', ''String autor'', ''String isbn'', ''Boolean disponible''],
     methods = map u16 [''marcarDisponible()'', ''marcarPrestado()'', ''obtenerInformacion()'']\<rparr>"

definition exPrestamo :: ClassDefinition where
  "exPrestamo = \<lparr>name = u16 ''Prestamo'',
     attributes = map u16 [''Date fechaPrestamo'', ''Date fechaVencimiento'', ''Boolean devuelto''],
     methods = map u16 [''calcularMulta()'', ''marcarDevuelto()'', ''extenderPrestamo()'']\<rparr>"

definition exPresta :: RelationDefinition where
  "exPresta = \<lparr>source = u16 ''Usuario'', target = u16 ''Prestamo'', type = ONE_TO_MANY,
     bidirectional = False\<rparr>"

definition exPrestado :: RelationDefinition where
  "exPrestado = \<lparr>source = u16 ''Libro'', target = u16 ''Prestamo'', type = ONE_TO_MANY,
     bidirectional = False\<rparr>"

definition exBiblioteca :: JavaSpringGenerator where
  "exBiblioteca = addRelation exPrestado (addRelation exPresta
     (addClass exPrestamo (addClass exLibro (addClass exUsuario (newGenerator (u16 ''com.example''))))))"

text \<open>A class whose attribute \<open>a\<close> is declared twice and that has attributes named \<open>id\<close>.\<close>

definition exRepeated :: ClassDefinition where
  "exRepeated = \<lparr>name = u16 ''Item'', attributes = map u16 [''a: int'', ''a: string'', ''id: int''],
     methods = []\<rparr>"

section \<open>Verified properties\<close>

subsection \<open>Helper facts about strings\<close>

lemma trim_id:
  assumes "s \<noteq> []" "\<not> isSpace (hd s)" "\<not> isSpace (last s)"
  shows "trim s = s"
proof -
  from assms have a: "dropWhile isSpace s = s"
    by (cases s) auto
  from assms have "dropWhile isSpace (rev s) = rev s"
    by (cases "rev s") (auto simp: last_rev hd_rev [symmetric] dest: arg_cong [where f = hd])
  with a show ?thesis by (simp add: trim_def)
qed

lemma endsWith_iff: "endsWith s t \<longleftrightarrow> (\<exists>p. s = p @ t)"
proof
  assume "endsWith s t"
  then have "s = take (length s - length t) s @ t"
    by (metis append_take_drop_id endsWith_def)
  then show "\<exists>p. s = p @ t" ..
next
  assume "\<exists>p. s = p @ t"
  then show "endsWith s t" by (auto simp: endsWith_def)
qed

lemma endsNonVowelY_iff:
  "endsNonVowelY s \<longleftrightarrow> (\<exists>p c. s = p @ c # u16 ''y'' \<and> c \<notin> set (u16 ''aeiou''))"
proof
  assume h: "endsNonVowelY s"
  then have ne: "s \<noteq> []" and ne2: "butlast s \<noteq> []"
    by (auto simp: endsNonVowelY_def) (cases s; cases "tl s"; auto)+
  have "s = butlast s @ [last s]" using ne by simp
  also have "butlast s = butlast (butlast s) @ [last (butlast s)]" using ne2 by simp
  finally have "s = butlast (butlast s) @ last (butlast s) # u16 ''y''"
    using h by (simp add: endsNonVowelY_def u16_def)
  with h show "\<exists>p c. s = p @ c # u16 ''y'' \<and> c \<notin> set (u16 ''aeiou'')"
    unfolding endsNonVowelY_def notVowel_def by blast
next
  assume "\<exists>p c. s = p @ c # u16 ''y'' \<and> c \<notin> set (u16 ''aeiou'')"
  then obtain p c where "s = p @ c # u16 ''y''" "c \<notin> set (u16 ''aeiou'')" by blast
  then show "endsNonVowelY s"
    by (simp add: endsNonVowelY_def notVowel_def butlast_append u16_def)
qed

lemma sliceEnd_1: "sliceEnd s 1 = butlast s"
  by (simp add: sliceEnd_def butlast_conv_take)

lemma sliceEnd_2: "sliceEnd s 2 = butlast (butlast s)"
  by (simp add: sliceEnd_def butlast_conv_take numeral_2_eq_2)

subsection \<open>Pluralization\<close>

text \<open>
  Claim C7 as stated fails: in \<open>Ay\<close> the letter before the final y is a vowel, not a
  consonant, so by the claim's rules the plural is \<open>Ays\<close>; the code gives \<open>Aies\<close>.
\<close>

theorem toPlural_consonant_counterexample:
  "\<not> consonantAsClaimed (of_char CHR ''A'')
   \<and> toPlural (u16 ''Ay'') = u16 ''Aies''
   \<and> toPlural (u16 ''Ay'') \<noteq> u16 ''Ays''"
  by code_simp

text \<open>
  Claim C7, amended. For every identifier \<open>s\<close> (non-empty, no white space at either
  end), \<open>toPlural\<close> applies its rules in this fixed priority order: ending in s, sh,
  ch, x or z appends \<open>es\<close>; a final y after any character other than the lower-case
  letters a, e, i, o, u replaces the y with \<open>ies\<close>; a final f drops the f and appends
  \<open>ves\<close>; a final fe drops the fe and appends \<open>ves\<close>; otherwise \<open>s\<close> is
  appended. In particular the plurals of class, category, leaf and user are classes,
  categories, leaves and users, and the plural of day is days.
\<close>

theorem toPlural_priority_order:
  assumes "s \<noteq> []" and "\<not> isSpace (hd s)" and "\<not> isSpace (last s)"
  shows "toPlural s =
    (if (\<exists>p. s = p @ u16 ''s'') \<or> (\<exists>p. s = p @ u16 ''sh'') \<or> (\<exists>p. s = p @ u16 ''ch'')
        \<or> (\<exists>p. s = p @ u16 ''x'') \<or> (\<exists>p. s = p @ u16 ''z'') then s @ u16 ''es''
     else if (\<exists>p c. s = p @ c # u16 ''y'' \<and> c \<notin> set (u16 ''aeiou''))
       then butlast s @ u16 ''ies''
     else if (\<exists>p. s = p @ u16 ''f'') then butlast s @ u16 ''ves''
     else if (\<exists>p. s = p @ u16 ''fe'') then butlast (butlast s) @ u16 ''ves''
     else s @ u16 ''s'')
    \<and> toPlural (u16 ''class'') = u16 ''classes''
    \<and> toPlural (u16 ''category'') = u16 ''categories''
    \<and> toPlural (u16 ''leaf'') = u16 ''leaves''
    \<and> toPlural (u16 ''user'') = u16 ''users''
    \<and> toPlural (u16 ''day'') = u16 ''days''"
proof -
  have t: "safeStr s [] = s"
    using assms by (simp add: safeStr_def trim_id)
  have general: "toPlural s =
    (if (\<exists>p. s = p @ u16 ''s'') \<or> (\<exists>p. s = p @ u16 ''sh'') \<or> (\<exists>p. s = p @ u16 ''ch'')
        \<or> (\<exists>p. s = p @ u16 ''x'') \<or> (\<exists>p. s = p @ u16 ''z'') then s @ u16 ''es''
     else if (\<exists>p c. s = p @ c # u16 ''y'' \<and> c \<notin> set (u16 ''aeiou''))
       then butlast s @ u16 ''ies''
     else if (\<exists>p. s = p @ u16 ''f'') then butlast s @ u16 ''ves''
     else if (\<exists>p. s = p @ u16 ''fe'') then butlast (butlast s) @ u16 ''ves''
     else s @ u16 ''s'')"
    unfolding toPlural_def Let_def t endsSibilant_def endsWith_iff endsNonVowelY_iff
      sliceEnd_1 sliceEnd_2
    using assms(1) by simp
  have "toPlural (u16 ''class'') = u16 ''classes''" by code_simp
  moreover have "toPlural (u16 ''category'') = u16 ''categories''" by code_simp
  moreover have "toPlural (u16 ''leaf'') = u16 ''leaves''" by code_simp
  moreover have "toPlural (u16 ''user'') = u16 ''users''" by code_simp
  moreover have "toPlural (u16 ''day'') = u16 ''days''" by code_simp
  ultimately show ?thesis using general by blast
qed

theorem toPlural_priority_order_witness:
  "u16 ''knife'' \<noteq> [] \<and> \<not> isSpace (hd (u16 ''knife'')) \<and> \<not> isSpace (last (u16 ''knife''))
   \<and> toPlural (u16 ''knife'') = u16 ''knives''"
proof -
  have h1: "u16 ''knife'' \<noteq> []" by (simp add: u16_def)
  have h2: "\<not> isSpace (hd (u16 ''knife''))" by code_simp
  have h3: "\<not> isSpace (last (u16 ''knife''))" by code_simp
  have "toPlural (u16 ''knife'') = u16 ''knives''"
    using toPlural_priority_order [OF h1 h2 h3]
    unfolding endsWith_iff [symmetric] endsNonVowelY_iff [symmetric]
    by (simp add: endsWith_def endsNonVowelY_def notVowel_def u16_def)
  with h1 h2 h3 show ?thesis by (intro conjI)
qed

subsection \<open>Type resolver\<close>

lemma mapToJavaType_unknown:
  assumes "map_of typeMap (trim t) = None" and "trim t \<notin> set objectPrototypeKeys"
  shows "mapToJavaType t = Str (u16 ''String'')"
  using assms by (simp add: mapToJavaType_def typeMapGet_def)

text \<open>
  Claim C5. A token that is not in the synonym table should resolve to the canonical text
  type \<open>String\<close>. The token \<open>constructor\<close> is not in the table, yet the lookup
  \<open>typeMap[normalized]\<close> finds the member of that name inherited from
  \<open>Object.prototype\<close>, which is truthy, so \<open>mapToJavaType\<close> returns it instead of
  \<open>String\<close>; the attribute line \<open>x: constructor\<close> reaches this through
  \<open>parseAttribute\<close>.
\<close>

theorem mapToJavaType_constructor:
  "map_of typeMap (u16 ''constructor'') = None
   \<and> mapToJavaType (u16 ''constructor'') = Inherited (u16 ''constructor'')
   \<and> mapToJavaType (u16 ''constructor'') \<noteq> Str (u16 ''String'')
   \<and> ptype (parseAttribute latin1 (u16 ''x: constructor'') 0) = Inherited (u16 ''constructor'')"
  by code_simp

subsection \<open>Identifier sanitizer\<close>







lemma natToString_digits: "list_all isDigit (natToString n)"
proof (induction n rule: natToString.induct)
  case (1 n)
  show ?case
  proof (cases "n < 10")
    case True
    then show ?thesis
      by (subst natToString.simps) (simp add: isDigit_def inRange_def)
  next
    case False
    have "n mod 10 < 10" by simp
    then have "isDigit (48 + n mod 10)" by (simp add: isDigit_def inRange_def)
    then show ?thesis using False 1 by (subst natToString.simps) simp
  qed
qed







subsection \<open>Attribute parser\<close>

lemma dropWhile_spaces_append:
  assumes "\<forall>c \<in> set w. isSpace c"
  shows "dropWhile isSpace (w @ m) = dropWhile isSpace m"
  using assms by (induction w) auto

lemma trim_padded:
  assumes "\<forall>c \<in> set w0. isSpace c" "\<forall>c \<in> set w2. isSpace c"
    and "m \<noteq> []" "\<not> isSpace (hd m)" "\<not> isSpace (last m)"
  shows "trim (w0 @ m @ w2) = m"
proof -
  have a: "dropWhile isSpace (w0 @ m @ w2) = m @ w2"
    using assms(1,3,4) by (cases m) (auto simp: dropWhile_spaces_append)
  have "rev (m @ w2) = rev w2 @ rev m" by simp
  moreover have "dropWhile isSpace (rev w2 @ rev m) = dropWhile isSpace (rev m)"
    using assms(2) by (intro dropWhile_spaces_append) simp
  moreover have "dropWhile isSpace (rev m) = rev m"
    using assms(3,5) by (cases "rev m") (auto simp: last_rev hd_rev [symmetric] dest: arg_cong [where f = hd])
  ultimately show ?thesis by (simp add: trim_def a)
qed

lemma indexOf_None: "indexOf s c = None \<longleftrightarrow> c \<notin> set s"
  by (induction s) auto

lemma splitWs_nonempty: "splitWs s \<noteq> []"
  by (induction s rule: splitWs.induct) (auto split: list.splits)

lemma splitWs_word:
  assumes "\<forall>c \<in> set t. \<not> isSpace c"
  shows "splitWs t = [t]"
  using assms by (induction t) (auto split: list.splits)

lemma splitWs_word_space:
  assumes "\<forall>c \<in> set t. \<not> isSpace c" and "isSpace c"
  shows "splitWs (t @ c # cs) = t # splitWs (dropWhile isSpace cs)"
  using assms by (induction t) (auto split: list.splits)

lemma tokens_two_words:
  assumes "\<forall>c \<in> set t1. \<not> isSpace c" "\<forall>c \<in> set t2. \<not> isSpace c"
    and "\<forall>c \<in> set w1. isSpace c" "w1 \<noteq> []" "t1 \<noteq> []" "t2 \<noteq> []"
  shows "tokens (t1 @ w1 @ t2) = [t1, t2]"
proof -
  obtain c cs where w1: "w1 = c # cs" using assms(4) by (cases w1) auto
  then have c: "isSpace c" and cs: "\<forall>c \<in> set cs. isSpace c" using assms(3) by auto
  have "splitWs (t1 @ w1 @ t2) = t1 # splitWs (dropWhile isSpace (cs @ t2))"
    using splitWs_word_space [OF assms(1) c, of "cs @ t2"] by (simp add: w1)
  also have "dropWhile isSpace (cs @ t2) = t2"
    using cs assms(2,6) by (cases t2) (auto simp: dropWhile_spaces_append)
  finally show ?thesis
    using assms(5,6) by (simp add: tokens_def splitWs_word [OF assms(2)])
qed

text \<open>
  Claim C8 as stated fails: for the line \<open>int count\<close> the resulting type is
  \<open>Integer\<close>, not the first token \<open>int\<close>, and for \<open>String Name\<close> the name is
  camel-cased to \<open>name\<close>.
\<close>

theorem parseAttribute_counterexample:
  "ptype (parseAttribute latin1 (u16 ''int count'') 0) \<noteq> Str (u16 ''int'')
   \<and> pname (parseAttribute latin1 (u16 ''String Name'') 0)
       \<noteq> sanitizeIdentifier latin1 (u16 ''Name'') (fieldFallback 0)"
  by code_simp

text \<open>
  Claim C8, amended. For every attribute line that consists of exactly two tokens
  separated by white space (with optional white space around them), holds no colon, and
  whose first token is type-like (\<open>isJavaType\<close>), \<open>parseAttribute\<close> returns the
  type that \<open>mapToJavaType\<close> resolves the first token to, and as name the sanitised
  and then camel-cased second token.
\<close>

theorem parseAttribute_type_name:
  assumes line: "line = w0 @ t1 @ w1 @ t2 @ w2"
    and spaces: "\<forall>c \<in> set (w0 @ w1 @ w2). isSpace c" "w1 \<noteq> []"
    and words: "t1 \<noteq> []" "t2 \<noteq> []" "\<forall>c \<in> set (t1 @ t2). \<not> isSpace c"
    and no_colon: "colon \<notin> set line"
    and typelike: "isJavaType t1"
  shows "parseAttribute U line index =
    \<lparr>ptype = mapToJavaType t1,
     pname = toCamelCase U (sanitizeIdentifier U t2 (fieldFallback index))\<rparr>"
proof -
  let ?m = "t1 @ w1 @ t2"
  have m: "?m \<noteq> []" "\<not> isSpace (hd ?m)" "\<not> isSpace (last ?m)"
    using words by (auto simp: hd_append)
  have "trim (w0 @ ?m @ w2) = ?m"
    using spaces(1) by (intro trim_padded m) auto
  then have raw: "safeStr line [] = ?m"
    using m(1) by (simp add: safeStr_def line)
  have "set ?m \<subseteq> set line" by (auto simp: line)
  then have idx: "indexOf ?m colon = None"
    using no_colon by (auto simp: indexOf_None)
  have toks: "tokens ?m = [t1, t2]"
    using spaces words by (intro tokens_two_words) auto
  from words(1) have ne: "(t1 @ w1 @ t2 = []) = False" by simp
  show ?thesis
    unfolding parseAttribute_def Let_def raw idx toks ne
    using typelike by simp
qed

theorem parseAttribute_type_name_witness:
  "parseAttribute latin1 (u16 ''Customer  Owner '') 2
     = \<lparr>ptype = Str (u16 ''String''), pname = u16 ''owner''\<rparr>"
proof -
  have line: "u16 ''Customer  Owner '' = [] @ u16 ''Customer'' @ u16 ''  '' @ u16 ''Owner'' @ u16 '' ''"
    by (simp add: u16_def)
  have spaces: "\<forall>c \<in> set ([] @ u16 ''  '' @ u16 '' ''). isSpace c" by code_simp
  have w1: "u16 ''  '' \<noteq> []" and t1: "u16 ''Customer'' \<noteq> []" and t2: "u16 ''Owner'' \<noteq> []"
    by (simp_all add: u16_def)
  have words: "\<forall>c \<in> set (u16 ''Customer'' @ u16 ''Owner''). \<not> isSpace c" by code_simp
  have no_colon: "colon \<notin> set (u16 ''Customer  Owner '')" by code_simp
  have typelike: "isJavaType (u16 ''Customer'')" by code_simp
  have t: "mapToJavaType (u16 ''Customer'') = Str (u16 ''String'')" by code_simp
  have n: "toCamelCase latin1 (sanitizeIdentifier latin1 (u16 ''Owner'') (fieldFallback 2)) = u16 ''owner''"
    by code_simp
  show ?thesis
    using parseAttribute_type_name [OF line spaces w1 t1 t2 words no_colon typelike, of latin1 2]
    by (simp add: t n)
qed

subsection \<open>Attribute fields: first writer wins\<close>

lemma attributeStep_invariant:
  assumes "attrInvariant U st"
  shows "attrInvariant U (attributeStep U st ai)"
proof -
  obtain used lines where st: "st = (used, lines)" by (cases st)
  obtain a i where ai: "ai = (a, i)" by (cases ai)
  show ?thesis
    using assms
    by (auto simp: st ai attributeStep_def attrInvariant_def Let_def)
qed

lemma foldl_attributeStep_invariant:
  "attrInvariant U st \<Longrightarrow> attrInvariant U (foldl (attributeStep U) st ais)"
  by (induction ais arbitrary: st) (simp_all add: attributeStep_invariant)

lemma attributeFields_invariant: "attrInvariant U (attributeFields U cls)"
  unfolding attributeFields_def
  by (rule foldl_attributeStep_invariant) (simp add: attrInvariant_def)

lemma attributeFields_distinct: "distinct (map fieldName (snd (attributeFields U cls)))"
  using attributeFields_invariant [of U cls] by (simp add: attrInvariant_def)

lemma attributeFields_no_id:
  "list_all (\<lambda>f. toLowerCase U (fieldName f) \<noteq> u16 ''id'' \<and> fieldName f \<noteq> u16 ''id'')
     (snd (attributeFields U cls))"
  using attributeFields_invariant [of U cls] by (auto simp: attrInvariant_def list_all_iff)

lemma dtoStep_invariant:
  assumes "dtoInvariant U st"
  shows "dtoInvariant U (dtoStep U st ai)"
proof -
  obtain used defs imps where st: "st = (used, defs, imps)" by (cases st)
  obtain a i where ai: "ai = (a, i)" by (cases ai)
  show ?thesis
    using assms
    by (auto simp: st ai dtoStep_def dtoInvariant_def Let_def)
qed

lemma foldl_dtoStep_invariant:
  "dtoInvariant U st \<Longrightarrow> dtoInvariant U (foldl (dtoStep U) st ais)"
  by (induction ais arbitrary: st) (simp_all add: dtoStep_invariant)

lemma dtoState_invariant: "dtoInvariant U (dtoState U cls)"
  unfolding dtoState_def
  by (rule foldl_dtoStep_invariant) (simp add: dtoInvariant_def)

text \<open>A DTO declares \<open>id\<close> once, and no attribute of it is \<open>id\<close> in any letter case.\<close>

lemma dtoFieldNames_one_id:
  "distinct (dtoFieldNames U cls)
   \<and> filter (\<lambda>n. n = u16 ''id'') (dtoFieldNames U cls) = [u16 ''id'']
   \<and> list_all (\<lambda>p. toLowerCase U (pname p) \<noteq> u16 ''id'') (dtoFields U cls)"
proof -
  have inv: "dtoInvariant U (dtoState U cls)" by (rule dtoState_invariant)
  then have a: "list_all (\<lambda>p. toLowerCase U (pname p) \<noteq> u16 ''id'') (dtoFields U cls)"
    and b: "distinct (map pname (dtoFields U cls))"
    and c: "pname ` set (dtoFields U cls) \<subseteq> fst (dtoState U cls) - {u16 ''id''}"
    by (simp_all add: dtoInvariant_def dtoFields_def)
  from c have n: "u16 ''id'' \<notin> set (map pname (dtoFields U cls))" by auto
  have "filter (\<lambda>n. n = a) xs = []" if "a \<notin> set xs" for a :: jsstring and xs
    using that by (induction xs) auto
  from this [OF n] have "filter (\<lambda>n. n = u16 ''id'') (map pname (dtoFields U cls)) = []" .
  then show ?thesis
    using a b n by (simp add: dtoFieldNames_def)
qed

subsection \<open>Relationship planner\<close>

text \<open>
  Claim C1. The fields of one entity should have pairwise distinct names, a relation field
  being skipped when its name is taken. For the author with the attribute \<open>books\<close>
  and a one-to-many relation to \<open>Book\<close>, the relation loop reserves and tests the
  name \<open>book\<close> but pushes a collection named \<open>books\<close>: the entity gets two
  fields named \<open>books\<close>.
\<close>

theorem fieldList_duplicate_name:
  "fieldList latin1 exLibrary exAuthor =
     [Column (Str (u16 ''String'')) (u16 ''books''),
      OneToManyColl (u16 ''author'') (u16 ''Book'') (u16 ''books'')]
   \<and> map fieldName (fieldList latin1 exLibrary exAuthor) = [u16 ''books'', u16 ''books'']
   \<and> \<not> distinct (map fieldName (fieldList latin1 exLibrary exAuthor))
   \<and> relationFieldName latin1 (u16 ''Author'') exWrites = u16 ''book''"
  by code_simp

lemma relationLines_manyToMany:
  assumes "type r = MANY_TO_MANY"
  shows "source r = c \<Longrightarrow> relationLines U c r =
           [ManyToManyOwning (toLowerCase U (source r) @ u16 ''_'' @ toLowerCase U (target r))
              (toCamelCase U (source r) @ u16 ''_id'') (toCamelCase U (target r) @ u16 ''_id'')
              (target r) (toPlural (toCamelCase U (target r)))]"
    and "source r \<noteq> c \<Longrightarrow> \<not> bidirectional r \<Longrightarrow> relationLines U c r = []"
    and "source r \<noteq> c \<Longrightarrow> bidirectional r \<Longrightarrow> relationLines U c r =
           [ManyToManyInverse (toPlural (toCamelCase U (source r))) (source r)
              (toPlural (toCamelCase U (source r)))]"
  using assms by (simp_all add: relationLines_def Let_def)

text \<open>
  Claim C3. The inverse side of a bidirectional many-to-many relation should refer to the
  collection field of the owning side. For students and courses the owning field on
  \<open>Student\<close> is \<open>courses\<close> (join table \<open>student_course\<close>), while the field on
  \<open>Course\<close> is mapped by \<open>students\<close>, which is its own name.
\<close>

theorem manyToMany_mappedBy_mismatch:
  "fieldList latin1 exSchool exStudent =
     [ManyToManyOwning (u16 ''student_course'') (u16 ''student_id'') (u16 ''course_id'')
        (u16 ''Course'') (u16 ''courses'')]
   \<and> fieldList latin1 exSchool exCourse =
       [ManyToManyInverse (u16 ''students'') (u16 ''Student'') (u16 ''students'')]
   \<and> map mappedByOf (fieldList latin1 exSchool exCourse)
       \<noteq> map fieldName (fieldList latin1 exSchool exStudent)"
  by code_simp

text \<open>
  One step of the relation loop for a one-to-many relation between two different classes:
  the source gets the collection unless the singular name of the target is reserved, the
  target gets the scalar reference unless the plural name of the source is reserved; the
  flag \<open>bidirectional\<close> plays no part.
\<close>

lemma relationStep_oneToMany:
  assumes "source r = A" "target r = B" "type r = ONE_TO_MANY" "A \<noteq> B"
  shows "relationStep U A (used, lines) r =
           (if toCamelCase U B \<in> used then (used, lines)
            else (insert (toCamelCase U B) used,
                  lines @ [OneToManyColl (toCamelCase U A) B (toPlural (toCamelCase U B))]))"
    and "relationStep U B (used, lines) r =
           (if toPlural (toCamelCase U A) \<in> used then (used, lines)
            else (insert (toPlural (toCamelCase U A)) used,
                  lines @ [ManyToOneRef (toCamelCase U A @ u16 ''_id'') A (toCamelCase U A)]))"
  using assms
  by (simp_all add: relationStep_def relationFieldName_def relationLines_def Let_def)

text \<open>
  The library diagram of the assistant: the loan, target of two one-to-many relations,
  gets a scalar reference for each, and each source gets its collection of loans.
\<close>

lemma fieldList_biblioteca:
  "map (\<lambda>f. (scalarRefTo f, fieldName f)) (fieldList latin1 exBiblioteca exPrestamo) =
     [(None, u16 ''fechaPrestamo''), (None, u16 ''fechaVencimiento''), (None, u16 ''devuelto''),
      (Some (u16 ''Usuario''), u16 ''usuario''), (Some (u16 ''Libro''), u16 ''libro'')]
   \<and> filter (\<lambda>f. collectionOf f \<noteq> None) (fieldList latin1 exBiblioteca exUsuario) =
       [OneToManyColl (u16 ''usuario'') (u16 ''Prestamo'') (u16 ''prestamos'')]
   \<and> filter (\<lambda>f. collectionOf f \<noteq> None) (fieldList latin1 exBiblioteca exLibro) =
       [OneToManyColl (u16 ''libro'') (u16 ''Prestamo'') (u16 ''prestamos'')]"
  by code_simp

text \<open>A class related to itself is planned once, as the source: it gets the collection only.\<close>

lemma fieldList_self_relation:
  "fieldList latin1 exTree exNode = [OneToManyColl (u16 ''node'') (u16 ''Node'') (u16 ''nodes'')]"
  by code_simp

text \<open>
  Claim C2. For a one-to-many relation from \<open>A\<close> to \<open>B\<close> the class \<open>B\<close> should
  get exactly one scalar reference to \<open>A\<close>. In the library whose book has the text
  attribute \<open>authors\<close>, the relation from \<open>Author\<close> to \<open>Book\<close> gives the author
  its collection of books, but the book gets no reference to its author: for the target
  the relation loop tests the plural \<open>authors\<close>, which the attribute has reserved, and
  skips the relation, although the field it would push is named \<open>author\<close> and that name
  is free on the book.
\<close>

theorem oneToMany_reference_missing:
  "fieldList latin1 exLibraryAuthors exWriter =
     [Column (Str (u16 ''String'')) (u16 ''name''),
      OneToManyColl (u16 ''author'') (u16 ''Book'') (u16 ''books'')]
   \<and> fieldList latin1 exLibraryAuthors exBookAuthors =
       [Column (Str (u16 ''String'')) (u16 ''authors'')]
   \<and> filter (\<lambda>f. scalarRefTo f = Some (u16 ''Author''))
        (fieldList latin1 exLibraryAuthors exBookAuthors) = []
   \<and> relationFieldName latin1 (u16 ''Book'') exWrites = u16 ''authors''
   \<and> relationLines latin1 (u16 ''Book'') exWrites =
       [ManyToOneRef (u16 ''author_id'') (u16 ''Author'') (u16 ''author'')]
   \<and> u16 ''author'' \<notin> fst (attributeFields latin1 exBookAuthors)"
  by code_simp

subsection \<open>Sample request body\<close>

text \<open>
  The DTO of a class keeps the first attribute of a name and drops \<open>id\<close>; the sample
  body runs over all attribute lines, so the later line of a repeated name decides its
  value and \<open>id\<close> gets an entry.
\<close>

lemma sampleData_repeated_attribute:
  "dtoFields latin1 exRepeated = [\<lparr>ptype = Str (u16 ''Integer''), pname = u16 ''a''\<rparr>]
   \<and> sampleData latin1 exRepeated =
       [(u16 ''a'', JString (u16 ''sample_a'')), (u16 ''id'', JNumber 1)]"
  by code_simp

text \<open>
  Claim C9. A field of the decimal type should get the sample value \<open>1.0\<close>. The
  attribute \<open>price: decimal\<close> resolves to the canonical decimal type \<open>BigDecimal\<close>,
  for which the \<open>switch\<close> of \<open>generateSampleRequestBody\<close> has no case beside
  \<open>Double\<close> and \<open>Float\<close>: the field falls to the \<open>default\<close> branch and gets the
  string \<open>sample_price\<close>, where the floating types get the number.
\<close>

theorem sampleData_decimal_text:
  \<open>ptype (parseAttribute latin1 (u16 ''price: decimal'') 0) = Str (u16 ''BigDecimal'')
   \<and> sampleData latin1 exProduct = [(u16 ''price'', JString (u16 ''sample_price''))]
   \<and> sampleData latin1 exProduct \<noteq> [(u16 ''price'', JNumber 1)]
   \<and> sampleValue (Str (u16 ''Double'')) (u16 ''price'') = JNumber 1
   \<and> sampleValue (Str (u16 ''Float'')) (u16 ''price'') = JNumber 1
   \<and> generateSampleRequestBody latin1 exProduct
       = u16 ''{'' @ [10] @ u16 ''  "price": "sample_price"'' @ [10] @ u16 ''}''\<close>
  by code_simp

subsection \<open>The surrogate identifier\<close>

text \<open>
  Claim C10. An entity should declare exactly one field named \<open>id\<close>. For the order
  that is the target of a one-to-many relation from the class \<open>Id\<close>, the relation loop
  reserves and tests the name \<open>ids\<close> but pushes a scalar reference named \<open>id\<close>:
  the entity declares \<open>id\<close> twice.
\<close>

theorem entity_two_id_fields:
  "fieldList latin1 exShop exOrder =
     [Column (Str (u16 ''BigDecimal'')) (u16 ''total''),
      ManyToOneRef (u16 ''id_id'') (u16 ''Id'') (u16 ''id'')]
   \<and> entityFieldNames latin1 exShop exOrder = [u16 ''id'', u16 ''total'', u16 ''id'']
   \<and> relationFieldName latin1 (u16 ''Order'') exIdentifies = u16 ''ids''"
  by code_simp

subsection \<open>Project assembler\<close>

lemma natToString_nonempty: "natToString n \<noteq> []"
  by (subst natToString.simps) simp

lemma natToString_inj: "natToString n = natToString m \<Longrightarrow> n = m"
proof (induction n arbitrary: m rule: natToString.induct)
  case (1 n)
  show ?case
  proof (cases "n < 10")
    case True
    note n = this
    show ?thesis
    proof (cases "m < 10")
      case True
      then show ?thesis using 1(2) n
        by (simp add: natToString.simps [of n] natToString.simps [of m])
    next
      case False
      then show ?thesis using 1(2) n natToString_nonempty [of "m div 10"]
        by (simp add: natToString.simps [of n] natToString.simps [of m])
    qed
  next
    case False
    note n = this
    show ?thesis
    proof (cases "m < 10")
      case True
      then show ?thesis using 1(2) n natToString_nonempty [of "n div 10"]
        by (simp add: natToString.simps [of n] natToString.simps [of m])
    next
      case False
      then have "natToString (n div 10) = natToString (m div 10)"
        and "n mod 10 = m mod 10"
        using 1(2) n by (simp_all add: natToString.simps [of n] natToString.simps [of m])
      then have "n div 10 = m div 10" and "n mod 10 = m mod 10"
        using 1(1) [OF n] by simp_all
      then show ?thesis by (metis div_mult_mod_eq)
    qed
  qed
qed

lemma quoteCodeUnit_plain: "plainUnit c \<Longrightarrow> quoteCodeUnit c = [c]"
  by (simp add: plainUnit_def quoteCodeUnit_def isLeadSurrogate_def isTrailSurrogate_def
      inRange_def)

lemma quoteUnits_plain: "list_all plainUnit s \<Longrightarrow> quoteUnits s = s"
proof (induction s rule: quoteUnits.induct)
  case (3 h l rest)
  have "\<not> surrogatePair h l"
    using 3(3) by (simp add: plainUnit_def surrogatePair_def isLeadSurrogate_def inRange_def)
  then show ?case using 3 by (simp add: quoteCodeUnit_plain)
qed (simp_all add: quoteCodeUnit_plain)

lemma environment_id_plain: "list_all plainUnit (natToString now @ u16 ''-env'')"
proof -
  have "list_all plainUnit (natToString now)"
    using natToString_digits [of now]
    by (auto simp: list_all_iff plainUnit_def isDigit_def inRange_def)
  moreover have "list_all plainUnit (u16 ''-env'')" by code_simp
  ultimately show ?thesis by simp
qed

lemma generatePostmanEnvironment_inj:
  assumes "generatePostmanEnvironment t1 = generatePostmanEnvironment t2"
  shows "t1 = t2"
proof -
  have "natToString t1 @ u16 ''-env'' = natToString t2 @ u16 ''-env''"
    using assms
    by (simp add: generatePostmanEnvironment_def jsonStringify2_def quoteJson_def
        quoteUnits_plain [OF environment_id_plain])
  then have "natToString t1 = natToString t2" by simp
  then show ?thesis by (rule natToString_inj)
qed

lemma generateAll_environment:
  "generateAll U g now (u16 ''postman-environment.json'') = Some (generatePostmanEnvironment now)"
  by (simp add: generateAll_def Let_def)

text \<open>
  Claim C4 as stated fails: two invocations on the same classes and relations that read
  different clock values produce different file maps.
\<close>

theorem generateAll_clock_counterexample:
  "generateAll latin1 exLibrary 0 \<noteq> generateAll latin1 exLibrary 1"
proof
  assume "generateAll latin1 exLibrary 0 = generateAll latin1 exLibrary 1"
  then have "generateAll latin1 exLibrary 0 (u16 ''postman-environment.json'')
      = generateAll latin1 exLibrary 1 (u16 ''postman-environment.json'')" by simp
  then have "generatePostmanEnvironment 0 = generatePostmanEnvironment 1"
    by (simp only: generateAll_environment option.inject)
  then have "(0 :: nat) = 1" by (rule generatePostmanEnvironment_inj)
  then show False by simp
qed

text \<open>
  Claim C4, amended. Generation is a function of its input and of the clock value that
  \<open>Date.now()\<close> returns while the environment document is built. For fixed classes and
  relations, any two invocations produce file maps with the same set of paths and the
  same text for every path other than \<open>postman-environment.json\<close>; that file is the
  environment document for the clock value read, so two invocations produce identical
  file maps exactly when they read the same clock value.
\<close>

theorem generateAll_clock_only_environment:
  "dom (generateAll U g t1) = dom (generateAll U g t2)
   \<and> (\<forall>p. p \<noteq> u16 ''postman-environment.json'' \<longrightarrow> generateAll U g t1 p = generateAll U g t2 p)
   \<and> generateAll U g t1 (u16 ''postman-environment.json'') = Some (generatePostmanEnvironment t1)
   \<and> (generateAll U g t1 = generateAll U g t2 \<longleftrightarrow> t1 = t2)"
proof -
  have a: "dom (generateAll U g t1) = dom (generateAll U g t2)"
    by (simp add: generateAll_def Let_def)
  have b: "\<forall>p. p \<noteq> u16 ''postman-environment.json'' \<longrightarrow> generateAll U g t1 p = generateAll U g t2 p"
    by (simp add: generateAll_def Let_def)
  have c: "generateAll U g t1 (u16 ''postman-environment.json'') = Some (generatePostmanEnvironment t1)"
    by (rule generateAll_environment)
  have d: "t1 = t2" if "generateAll U g t1 = generateAll U g t2"
  proof -
    from that have "generateAll U g t1 (u16 ''postman-environment.json'')
        = generateAll U g t2 (u16 ''postman-environment.json'')" by simp
    then have "generatePostmanEnvironment t1 = generatePostmanEnvironment t2"
      by (simp only: generateAll_environment option.inject)
    then show ?thesis by (rule generatePostmanEnvironment_inj)
  qed
  from a b c d show ?thesis by blast
qed

theorem generateAll_clock_only_environment_witness:
  "u16 ''pom.xml'' \<noteq> u16 ''postman-environment.json''
   \<and> generateAll latin1 exLibrary 0 (u16 ''pom.xml'') = generateAll latin1 exLibrary 1 (u16 ''pom.xml'')"
proof -
  have h: "u16 ''pom.xml'' \<noteq> u16 ''postman-environment.json''" by (simp add: u16_def)
  note others = conjunct1 [OF conjunct2
      [OF generateAll_clock_only_environment [of latin1 exLibrary 0 1]]]
  have "generateAll latin1 exLibrary 0 (u16 ''pom.xml'') = generateAll latin1 exLibrary 1 (u16 ''pom.xml'')"
    by (rule mp [OF spec [OF others] h])
  then show ?thesis by (rule conjI [OF h])
qed

end
